theory Spec2Isabelle
  imports Complex_Main "HOL-Library.Sublist" "HOL-Library.AList"
begin

section \<open>Python values used by the registry store\<close>

text \<open>
  The development embeds \<^verbatim>\<open>mlflow/store/model_registry/abstract_store.py\<close>: the prompt
  adaptation layer of \<^verbatim>\<open>AbstractStore\<close>, its link merge protocol and its status poller.
  Python exceptions are values of the type \<open>exn\<close>; a call that may raise returns
  \<open>exn + 'a\<close> with \<open>Inl\<close> for the raised exception.
\<close>

datatype error_code = INVALID_PARAMETER_VALUE | RESOURCE_ALREADY_EXISTS | RESOURCE_DOES_NOT_EXIST

text \<open>
  The \<^verbatim>\<open>error_code\<close> argument of \<^verbatim>\<open>MlflowException(...)\<close> as the source writes it:
  left out, the protobuf constant itself, or \<^verbatim>\<open>ErrorCode.Name(...)\<close> of it.
\<close>

datatype error_code_arg = NoErrorCode | ByValue error_code | ByName error_code

datatype exn =
    MlflowException string error_code_arg
  | ValueError string
  | TypeError string
  | AttributeError string
  | OtherException string

fun is_MlflowException :: "exn \<Rightarrow> bool" where
  "is_MlflowException (MlflowException msg code) = True"
| "is_MlflowException e = False"

subsection \<open>\<^verbatim>\<open>str(n)\<close> and \<^verbatim>\<open>int(s)\<close>\<close>

definition digit_char :: "nat \<Rightarrow> char" where
  "digit_char d = ''0123456789'' ! d"

fun nat_to_str :: "nat \<Rightarrow> string" where
  "nat_to_str n =
     (if n < 10 then [digit_char n] else nat_to_str (n div 10) @ [digit_char (n mod 10)])"

declare nat_to_str.simps [simp del]

text \<open>\<^verbatim>\<open>str(n)\<close> of a Python integer: the decimal numeral, with a minus sign below zero.\<close>

definition py_str_int :: "int \<Rightarrow> string" where
  "py_str_int n = (if n < 0 then CHR ''-'' # nat_to_str (nat (- n)) else nat_to_str (nat n))"

definition is_digit :: "char \<Rightarrow> bool" where
  "is_digit c = (c \<in> set ''0123456789'')"

definition digit_val :: "char \<Rightarrow> nat" where
  "digit_val c = of_char c - 48"

text \<open>
  The characters \<^verbatim>\<open>int(s)\<close> strips from both ends of its argument: the ASCII white space
  of Python (tab, line feed, vertical tab, form feed, carriage return, the separators
  0x1c to 0x1f and the space). Characters are read as ASCII; the digits and spaces of
  other scripts that Python accepts as well are outside this model.
\<close>

definition is_py_space :: "char \<Rightarrow> bool" where
  "is_py_space c =
     (c \<in> {CHR 0x09, CHR 0x0A, CHR 0x0B, CHR 0x0C, CHR 0x0D,
            CHR 0x1C, CHR 0x1D, CHR 0x1E, CHR 0x1F, CHR '' ''})"

definition py_strip :: "string \<Rightarrow> string" where
  "py_strip s = rev (dropWhile is_py_space (rev (dropWhile is_py_space s)))"

text \<open>
  The digits of a decimal integer literal after its first digit: digits, each optionally
  preceded by one underscore.
\<close>

fun parse_digits :: "nat \<Rightarrow> string \<Rightarrow> nat option" where
  "parse_digits acc [] = Some acc"
| "parse_digits acc (c # cs) =
     (if is_digit c then parse_digits (10 * acc + digit_val c) cs
      else if c = CHR ''_'' then
        (case cs of
           [] \<Rightarrow> None
         | d # ds \<Rightarrow> if is_digit d then parse_digits (10 * acc + digit_val d) ds else None)
      else None)"

definition parse_nat :: "string \<Rightarrow> nat option" where
  "parse_nat s =
     (case s of
        [] \<Rightarrow> None
      | c # cs \<Rightarrow> if is_digit c then parse_digits (digit_val c) cs else None)"

text \<open>
  \<^verbatim>\<open>int(s)\<close> of a string in base ten: \<open>None\<close> stands for the \<^verbatim>\<open>ValueError\<close> Python
  raises on a string that is no integer literal.
\<close>

definition py_int_str :: "string \<Rightarrow> int option" where
  "py_int_str s =
     (case py_strip s of
        [] \<Rightarrow> None
      | c # cs \<Rightarrow>
          if c = CHR ''-'' then map_option (\<lambda>n. - int n) (parse_nat cs)
          else if c = CHR ''+'' then map_option int (parse_nat cs)
          else map_option int (parse_nat (c # cs)))"

text \<open>
  A version argument has the Python type \<^verbatim>\<open>Union[str, int]\<close>.
\<close>

datatype version_arg = VersionStr string | VersionInt int

fun py_str :: "version_arg \<Rightarrow> string" where
  "py_str (VersionStr s) = s"
| "py_str (VersionInt n) = py_str_int n"


section \<open>Entities of the registry\<close>

text \<open>
  A Python \<^verbatim>\<open>dict[str, str]\<close> is the list of its items in insertion order;
  \<^verbatim>\<open>d.get(k)\<close> is \<open>map_of d k\<close>. The \<^verbatim>\<open>tags\<close> attribute of an entity is read by the
  source both as a dict and as a list of tag objects (each a pair of \<^verbatim>\<open>key\<close> and
  \<^verbatim>\<open>value\<close>), and may be \<^verbatim>\<open>None\<close>.
\<close>

type_synonym py_dict = "(string \<times> string) list"

datatype tags_attr = TagsDict py_dict | TagsList "(string \<times> string) list" | TagsNone

text \<open>The comprehension \<^verbatim>\<open>{tag.key: tag.value for tag in tags}\<close>: a later tag replaces the
  value of an earlier one with the same key.\<close>

definition dict_of_tags :: "(string \<times> string) list \<Rightarrow> py_dict" where
  "dict_of_tags tags = fold (\<lambda>(k, v) d. AList.update k v d) tags []"

record registered_model =
  rm_name :: string
  rm_description :: "string option"
  rm_creation_timestamp :: "int option"
  rm_internal_tags :: tags_attr

record model_version =
  mv_name :: string
  mv_version :: int
  mv_source :: string
  mv_status :: string
  mv_status_message :: "string option"
  mv_description :: "string option"
  mv_tags :: tags_attr

record prompt =
  p_name :: string
  p_description :: "string option"
  p_creation_timestamp :: "int option"
  p_tags :: py_dict

record prompt_version =
  pv_name :: string
  pv_version :: int
  pv_template :: string
  pv_tags :: py_dict
  pv_prompt_tags :: py_dict

section \<open>Names the module imports\<close>

text \<open>
  A value read from JSON text: \<^verbatim>\<open>None\<close>, a bool, an int, a float (kept as its literal), a
  string, a list, or a dict with string keys (its items in insertion order).
\<close>

datatype json =
    JNull
  | JBool bool
  | JInt int
  | JFloat string
  | JString string
  | JArray "json list"
  | JObject "(string \<times> json) list"

text \<open>
  The response format handed to \<^verbatim>\<open>create_prompt_version\<close>: a Pydantic model class
  (stood for by its JSON schema) or a dict.
\<close>

datatype response_format = PydanticModel json | ResponseDict "(string \<times> json) list"

text \<open>
  What the module imports and the source files do not hold is a parameter \<open>M\<close> of the
  functions below: the reserved tag keys of \<^verbatim>\<open>mlflow.prompt.constants\<close>, Python's
  \<^verbatim>\<open>json.loads\<close> (\<open>None\<close> for a \<^verbatim>\<open>JSONDecodeError\<close>) and \<^verbatim>\<open>json.dumps\<close>, and the two
  conversions \<^verbatim>\<open>model_version_to_prompt_version\<close> and
  \<^verbatim>\<open>PromptVersion.convert_response_format_to_dict\<close>.
\<close>

record module_env =
  IS_PROMPT_TAG_KEY :: string
  LINKED_PROMPTS_TAG_KEY :: string
  PROMPT_TEXT_TAG_KEY :: string
  PROMPT_TYPE_TAG_KEY :: string
  RESPONSE_FORMAT_TAG_KEY :: string
  json_loads :: "string \<Rightarrow> json option"
  json_dumps :: "json \<Rightarrow> string"
  model_version_to_prompt_version :: "model_version \<Rightarrow> py_dict \<Rightarrow> exn + prompt_version"
  convert_response_format_to_dict :: "response_format \<Rightarrow> exn + json"

text \<open>Modelled from the spec: the two values of the template kind tag (section 6 of the
  specification, the table of persisted tag keys), \<^verbatim>\<open>"text"\<close> and \<^verbatim>\<open>"chat"\<close>; the constants
  \<^verbatim>\<open>PROMPT_TYPE_TEXT\<close> and \<^verbatim>\<open>PROMPT_TYPE_CHAT\<close> are imported from
  \<^verbatim>\<open>mlflow.prompt.constants\<close>.\<close>

definition PROMPT_TYPE_TEXT :: string where
  "PROMPT_TYPE_TEXT = ''text''"

definition PROMPT_TYPE_CHAT :: string where
  "PROMPT_TYPE_CHAT = ''chat''"

text \<open>Modelled from the spec: \<^verbatim>\<open>has_prompt_tag\<close> of \<^verbatim>\<open>mlflow.prompt.registry_utils\<close>, which
  the source imports; by section 3 of the specification a version is a prompt version
  when its tag map contains the reserved marker tag.\<close>

definition has_prompt_tag :: "module_env \<Rightarrow> tags_attr \<Rightarrow> bool" where
  "has_prompt_tag M tags =
     (case tags of
        TagsDict d \<Rightarrow> IS_PROMPT_TAG_KEY M \<in> set (map fst d)
      | TagsList xs \<Rightarrow> IS_PROMPT_TAG_KEY M \<in> set (map fst xs)
      | TagsNone \<Rightarrow> False)"

text \<open>Modelled from the spec: the \<^verbatim>\<open>tags\<close> property of the entity class
  \<^verbatim>\<open>RegisteredModel\<close> (in \<^verbatim>\<open>mlflow.entities.model_registry\<close>, not among the source files).
  By section 3 of the specification the user-visible tags of an entity are its tag map
  \<^verbatim>\<open>_tags\<close> minus the reserved marker.\<close>

definition rm_tags :: "module_env \<Rightarrow> registered_model \<Rightarrow> tags_attr" where
  "rm_tags M rm =
     (case rm_internal_tags rm of
        TagsDict d \<Rightarrow> TagsDict (AList.delete (IS_PROMPT_TAG_KEY M) d)
      | TagsList xs \<Rightarrow> TagsList (AList.delete (IS_PROMPT_TAG_KEY M) xs)
      | TagsNone \<Rightarrow> TagsNone)"

text \<open>
  The idiom
  \<^verbatim>\<open>t.copy() if isinstance(t, dict) else ({tag.key: tag.value for tag in t} if t else {})\<close>.
\<close>

definition tags_as_dict :: "tags_attr \<Rightarrow> py_dict" where
  "tags_as_dict t =
     (case t of
        TagsDict d \<Rightarrow> d
      | TagsList xs \<Rightarrow> if xs \<noteq> [] then dict_of_tags xs else []
      | TagsNone \<Rightarrow> [])"

text \<open>
  The same without the guard, \<^verbatim>\<open>t.copy() if isinstance(t, dict) else {tag.key: tag.value for tag in t}\<close>:
  iterating \<^verbatim>\<open>None\<close> raises a \<^verbatim>\<open>TypeError\<close>.
\<close>

definition tags_to_dict :: "tags_attr \<Rightarrow> exn + py_dict" where
  "tags_to_dict t =
     (case t of
        TagsDict d \<Rightarrow> Inr d
      | TagsList xs \<Rightarrow> Inr (dict_of_tags xs)
      | TagsNone \<Rightarrow> Inl (TypeError ''NoneType object is not iterable''))"

section \<open>An instance of the JSON functions\<close>

text \<open>
  The examples need a \<^verbatim>\<open>json.dumps\<close> and a \<^verbatim>\<open>json.loads\<close> to run. The two functions
  below follow Python's defaults on ASCII text: \<^verbatim>\<open>dumps\<close> separates items with
  \<^verbatim>\<open>", "\<close> and \<^verbatim>\<open>": "\<close> and escapes every character outside the printable ASCII range;
  \<^verbatim>\<open>loads\<close> is a recursive descent over the characters. This instance reads integers
  only: a number with a fraction or an exponent, the constants \<^verbatim>\<open>NaN\<close> and
  \<^verbatim>\<open>Infinity\<close>, and a \<^verbatim>\<open>\u\<close> escape above 0xff are outside it and are refused.
\<close>

definition hex_char :: "nat \<Rightarrow> char" where
  "hex_char d = ''0123456789abcdef'' ! d"

definition json_escape_char :: "char \<Rightarrow> string" where
  "json_escape_char c =
     (if c = CHR 0x22 then [CHR 0x5C, CHR 0x22]
      else if c = CHR 0x5C then [CHR 0x5C, CHR 0x5C]
      else if c = CHR 0x0A then [CHR 0x5C, CHR ''n'']
      else if c = CHR 0x0D then [CHR 0x5C, CHR ''r'']
      else if c = CHR 0x09 then [CHR 0x5C, CHR ''t'']
      else if c = CHR 0x08 then [CHR 0x5C, CHR ''b'']
      else if c = CHR 0x0C then [CHR 0x5C, CHR ''f'']
      else if (of_char c :: nat) < 32 \<or> (of_char c :: nat) > 126
        then [CHR 0x5C, CHR ''u'', CHR ''0'', CHR ''0'',
              hex_char (of_char c div 16), hex_char (of_char c mod 16)]
      else [c])"

definition json_quote :: "string \<Rightarrow> string" where
  "json_quote s = [CHR 0x22] @ concat (map json_escape_char s) @ [CHR 0x22]"

fun join :: "string \<Rightarrow> string list \<Rightarrow> string" where
  "join sep [] = []"
| "join sep [x] = x"
| "join sep (x # y # ys) = x @ sep @ join sep (y # ys)"

fun py_json_dumps :: "json \<Rightarrow> string"
  and dumps_items :: "json list \<Rightarrow> string list"
  and dumps_members :: "(string \<times> json) list \<Rightarrow> string list" where
  "py_json_dumps JNull = ''null''"
| "py_json_dumps (JBool b) = (if b then ''true'' else ''false'')"
| "py_json_dumps (JInt n) = py_str_int n"
| "py_json_dumps (JFloat lit) = lit"
| "py_json_dumps (JString s) = json_quote s"
| "py_json_dumps (JArray xs) = ''['' @ join '', '' (dumps_items xs) @ '']''"
| "py_json_dumps (JObject kvs) = ''{'' @ join '', '' (dumps_members kvs) @ ''}''"
| "dumps_items [] = []"
| "dumps_items (x # xs) = py_json_dumps x # dumps_items xs"
| "dumps_members [] = []"
| "dumps_members ((k, v) # kvs) = (json_quote k @ '': '' @ py_json_dumps v) # dumps_members kvs"

definition is_json_space :: "char \<Rightarrow> bool" where
  "is_json_space c = (c \<in> {CHR '' '', CHR 0x09, CHR 0x0A, CHR 0x0D})"

definition skip_space :: "string \<Rightarrow> string" where
  "skip_space s = dropWhile is_json_space s"

definition hex_val :: "char \<Rightarrow> nat option" where
  "hex_val c =
     (if is_digit c then Some (digit_val c)
      else if c \<in> set ''abcdef'' then Some (of_char c - 87)
      else if c \<in> set ''ABCDEF'' then Some (of_char c - 55)
      else None)"

text \<open>The characters of a string literal after its opening quote, up to the closing one.\<close>

fun parse_string_body :: "string \<Rightarrow> string \<Rightarrow> (string \<times> string) option" where
  "parse_string_body acc [] = None"
| "parse_string_body acc [c] = (if c = CHR 0x22 then Some (rev acc, []) else None)"
| "parse_string_body acc (c # e # cs) =
     (if c = CHR 0x22 then Some (rev acc, e # cs)
      else if c = CHR 0x5C then
        (if e = CHR 0x22 \<or> e = CHR 0x5C \<or> e = CHR ''/'' then parse_string_body (e # acc) cs
         else if e = CHR ''n'' then parse_string_body (CHR 0x0A # acc) cs
         else if e = CHR ''r'' then parse_string_body (CHR 0x0D # acc) cs
         else if e = CHR ''t'' then parse_string_body (CHR 0x09 # acc) cs
         else if e = CHR ''b'' then parse_string_body (CHR 0x08 # acc) cs
         else if e = CHR ''f'' then parse_string_body (CHR 0x0C # acc) cs
         else if e = CHR ''u'' then
           (case cs of
              h1 # h2 # h3 # h4 # r \<Rightarrow>
                (case (hex_val h1, hex_val h2, hex_val h3, hex_val h4) of
                   (Some 0, Some 0, Some a, Some b) \<Rightarrow> parse_string_body (char_of (16 * a + b) # acc) r
                 | _ \<Rightarrow> None)
            | _ \<Rightarrow> None)
         else None)
      else if (of_char c :: nat) < 32 then None
      else parse_string_body (c # acc) (e # cs))"

text \<open>An integer literal: an optional minus sign, then \<^verbatim>\<open>0\<close> or digits that do not start
  with \<^verbatim>\<open>0\<close>; a fraction or an exponent after it is refused.\<close>

definition parse_json_int :: "string \<Rightarrow> (json \<times> string) option" where
  "parse_json_int s =
     (let (neg, t) = (case s of c # cs \<Rightarrow> if c = CHR ''-'' then (True, cs) else (False, s) | [] \<Rightarrow> (False, s));
          ds = takeWhile is_digit t;
          r = dropWhile is_digit t
      in if ds = [] \<or> (length ds > 1 \<and> hd ds = CHR ''0'') then None
         else if r \<noteq> [] \<and> hd r \<in> set ''.eE'' then None
         else Some (JInt ((if neg then - 1 else 1) * int (fold (\<lambda>c n. 10 * n + digit_val c) ds 0)), r))"

definition strip_prefix :: "string \<Rightarrow> string \<Rightarrow> string option" where
  "strip_prefix p s = (if take (length p) s = p then Some (drop (length p) s) else None)"

text \<open>
  The descent. The first argument bounds the number of calls still allowed, and a text
  that uses them up is refused; \<open>py_json_loads\<close> starts the bound at twice the length of
  the text and two more (a call is made after a character was read, except for the
  first element of an array or a dict).
\<close>

fun parse_value :: "nat \<Rightarrow> string \<Rightarrow> (json \<times> string) option"
  and parse_elements :: "nat \<Rightarrow> json list \<Rightarrow> string \<Rightarrow> (json \<times> string) option"
  and parse_members :: "nat \<Rightarrow> (string \<times> json) list \<Rightarrow> string \<Rightarrow> (json \<times> string) option" where
  "parse_value 0 s = None"
| "parse_value (Suc n) s =
     (case skip_space s of
        [] \<Rightarrow> None
      | c # cs \<Rightarrow>
          if c = CHR 0x22 then
            (case parse_string_body [] cs of
               None \<Rightarrow> None
             | Some (str, r) \<Rightarrow> Some (JString str, r))
          else if c = CHR ''['' then
            (case skip_space cs of
               [] \<Rightarrow> None
             | d # r \<Rightarrow> if d = CHR '']'' then Some (JArray [], r) else parse_elements n [] cs)
          else if c = CHR ''{'' then
            (case skip_space cs of
               [] \<Rightarrow> None
             | d # r \<Rightarrow> if d = CHR ''}'' then Some (JObject [], r) else parse_members n [] cs)
          else
            (case strip_prefix ''null'' (c # cs) of
               Some r \<Rightarrow> Some (JNull, r)
             | None \<Rightarrow>
            (case strip_prefix ''true'' (c # cs) of
               Some r \<Rightarrow> Some (JBool True, r)
             | None \<Rightarrow>
            (case strip_prefix ''false'' (c # cs) of
               Some r \<Rightarrow> Some (JBool False, r)
             | None \<Rightarrow> parse_json_int (c # cs)))))"
| "parse_elements 0 acc s = None"
| "parse_elements (Suc n) acc s =
     (case parse_value n s of
        None \<Rightarrow> None
      | Some (v, r) \<Rightarrow>
          (case skip_space r of
             [] \<Rightarrow> None
           | d # r' \<Rightarrow>
               if d = CHR '','' then parse_elements n (acc @ [v]) r'
               else if d = CHR '']'' then Some (JArray (acc @ [v]), r')
               else None))"
| "parse_members 0 acc s = None"
| "parse_members (Suc n) acc s =
     (case skip_space s of
        [] \<Rightarrow> None
      | q # cs \<Rightarrow>
          if q \<noteq> CHR 0x22 then None
          else
            (case parse_string_body [] cs of
               None \<Rightarrow> None
             | Some (k, r) \<Rightarrow>
                 (case skip_space r of
                    [] \<Rightarrow> None
                  | d # r' \<Rightarrow>
                      if d \<noteq> CHR '':'' then None
                      else
                        (case parse_value n r' of
                           None \<Rightarrow> None
                         | Some (v, r'') \<Rightarrow>
                             (case skip_space r'' of
                                [] \<Rightarrow> None
                              | d' # r3 \<Rightarrow>
                                  if d' = CHR '','' then parse_members n (AList.update k v acc) r3
                                  else if d' = CHR ''}'' then Some (JObject (AList.update k v acc), r3)
                                  else None)))))"

definition py_json_loads :: "string \<Rightarrow> json option" where
  "py_json_loads s =
     (case parse_value (2 * length s + 2) s of
        None \<Rightarrow> None
      | Some (v, r) \<Rightarrow> if skip_space r = [] then Some v else None)"

section \<open>The abstract methods of the store\<close>

text \<open>
  \<^verbatim>\<open>AbstractStore\<close> leaves the operations on registered models and model versions
  abstract. They are a parameter of every function below: a record of functions over
  the state \<open>'s\<close> of the backend. A read returns its result or the exception raised; an
  operation that writes also returns the state it leaves.
\<close>

record 's registry_store =
  get_registered_model :: "'s \<Rightarrow> string \<Rightarrow> exn + registered_model"
  get_model_version :: "'s \<Rightarrow> string \<Rightarrow> int \<Rightarrow> exn + model_version"
  get_model_version_by_alias :: "'s \<Rightarrow> string \<Rightarrow> string \<Rightarrow> exn + model_version"
  create_model_version ::
    "'s \<Rightarrow> string \<Rightarrow> string \<Rightarrow> (string \<times> string) list \<Rightarrow> string option
      \<Rightarrow> (exn + model_version) \<times> 's"
  delete_model_version :: "'s \<Rightarrow> string \<Rightarrow> int \<Rightarrow> (exn + unit) \<times> 's"
  set_model_version_tag :: "'s \<Rightarrow> string \<Rightarrow> int \<Rightarrow> string \<times> string \<Rightarrow> (exn + unit) \<times> 's"
  delete_model_version_tag :: "'s \<Rightarrow> string \<Rightarrow> int \<Rightarrow> string \<Rightarrow> (exn + unit) \<times> 's"

section \<open>Operations on a prompt version that take a version number\<close>




section \<open>Reading a prompt\<close>

text \<open>
  \<^verbatim>\<open>get_prompt\<close>: the registered model is a prompt when its internal tags hold the
  marker with the value \<^verbatim>\<open>"true"\<close>. Every exception is caught and reported as \<^verbatim>\<open>None\<close>.
\<close>

definition get_prompt :: "module_env \<Rightarrow> 's registry_store \<Rightarrow> 's \<Rightarrow> string \<Rightarrow> prompt option" where
  "get_prompt M S s name =
     (case get_registered_model S s name of
        Inl e \<Rightarrow> None
      | Inr rm \<Rightarrow>
          let internal_tags = tags_as_dict (rm_internal_tags rm) in
          if \<not> (map_of internal_tags (IS_PROMPT_TAG_KEY M) = Some ''true'') then None
          else
            let user_tags = tags_as_dict (rm_tags M rm) in
            Some \<lparr>p_name = rm_name rm, p_description = rm_description rm,
                  p_creation_timestamp = rm_creation_timestamp rm, p_tags = user_tags\<rparr>)"

section \<open>Reading a prompt version\<close>

fun is_ValueError_or_TypeError :: "exn \<Rightarrow> bool" where
  "is_ValueError_or_TypeError (ValueError msg) = True"
| "is_ValueError_or_TypeError (TypeError msg) = True"
| "is_ValueError_or_TypeError e = False"

text \<open>
  The inner \<^verbatim>\<open>try\<close> of \<^verbatim>\<open>get_prompt_version\<close>: \<^verbatim>\<open>int(str(version))\<close> and the lookup by
  number, and on a \<^verbatim>\<open>ValueError\<close> or \<^verbatim>\<open>TypeError\<close> of either the lookup of
  \<^verbatim>\<open>str(version)\<close> as an alias.
\<close>

definition resolve_version ::
  "'s registry_store \<Rightarrow> 's \<Rightarrow> string \<Rightarrow> version_arg \<Rightarrow> exn + model_version" where
  "resolve_version S s name version =
     (case py_int_str (py_str version) of
        None \<Rightarrow> get_model_version_by_alias S s name (py_str version)
      | Some version_int \<Rightarrow>
          (case get_model_version S s name version_int of
             Inl e \<Rightarrow>
               if is_ValueError_or_TypeError e
               then get_model_version_by_alias S s name (py_str version)
               else Inl e
           | Inr mv \<Rightarrow> Inr mv))"

definition not_a_prompt :: "string \<Rightarrow> exn" where
  "not_a_prompt name =
     MlflowException
       (''Name '' @ [CHR 0x60] @ name @ [CHR 0x60] @ '' is registered as a model, not a prompt. ''
          @ ''Use get_model_version() or load_model() instead.'')
       (ByValue INVALID_PARAMETER_VALUE)"

text \<open>
  \<^verbatim>\<open>get_prompt_version\<close>. The body of the outer \<^verbatim>\<open>try\<close> is \<open>attempt\<close>; an
  \<^verbatim>\<open>MlflowException\<close> of it is raised again, every other exception becomes \<^verbatim>\<open>None\<close>.
\<close>

definition get_prompt_version ::
  "module_env \<Rightarrow> 's registry_store \<Rightarrow> 's \<Rightarrow> string \<Rightarrow> version_arg \<Rightarrow> exn + prompt_version option" where
  "get_prompt_version M S s name version =
     (let attempt =
        (case get_registered_model S s name of
           Inl e \<Rightarrow> Inl e
         | Inr rm \<Rightarrow>
             let internal_tags = tags_as_dict (rm_internal_tags rm) in
             if \<not> (map_of internal_tags (IS_PROMPT_TAG_KEY M) = Some ''true'')
             then Inl (not_a_prompt name)
             else
               (case resolve_version S s name version of
                  Inl e \<Rightarrow> Inl e
                | Inr mv \<Rightarrow>
                    if \<not> has_prompt_tag M (mv_tags mv) then Inr None
                    else
                      (case tags_to_dict (rm_tags M rm) of
                         Inl e \<Rightarrow> Inl e
                       | Inr prompt_tags \<Rightarrow>
                           (case model_version_to_prompt_version M mv prompt_tags of
                              Inl e \<Rightarrow> Inl e
                            | Inr pv \<Rightarrow> Inr (Some pv)))))
      in case attempt of
           Inl e \<Rightarrow> if is_MlflowException e then Inl e else Inr None
         | Inr r \<Rightarrow> Inr r)"

definition get_prompt_version_by_alias ::
  "module_env \<Rightarrow> 's registry_store \<Rightarrow> 's \<Rightarrow> string \<Rightarrow> string \<Rightarrow> exn + prompt_version option" where
  "get_prompt_version_by_alias M S s name alias = get_prompt_version M S s name (VersionStr alias)"

text \<open>
  What the specification and the docstring of \<^verbatim>\<open>get_prompt_version_by_alias\<close> describe, for
  comparison: the version is resolved by the store's alias lookup alone and then
  projected as \<^verbatim>\<open>get_prompt_version\<close> projects it.
\<close>

definition prompt_version_by_alias_spec ::
  "module_env \<Rightarrow> 's registry_store \<Rightarrow> 's \<Rightarrow> string \<Rightarrow> string \<Rightarrow> exn + prompt_version option" where
  "prompt_version_by_alias_spec M S s name alias =
     (let attempt =
        (case get_registered_model S s name of
           Inl e \<Rightarrow> Inl e
         | Inr rm \<Rightarrow>
             if \<not> (map_of (tags_as_dict (rm_internal_tags rm)) (IS_PROMPT_TAG_KEY M) = Some ''true'')
             then Inl (not_a_prompt name)
             else
               (case get_model_version_by_alias S s name alias of
                  Inl e \<Rightarrow> Inl e
                | Inr mv \<Rightarrow>
                    if \<not> has_prompt_tag M (mv_tags mv) then Inr None
                    else
                      (case tags_to_dict (rm_tags M rm) of
                         Inl e \<Rightarrow> Inl e
                       | Inr prompt_tags \<Rightarrow>
                           (case model_version_to_prompt_version M mv prompt_tags of
                              Inl e \<Rightarrow> Inl e
                            | Inr pv \<Rightarrow> Inr (Some pv)))))
      in case attempt of
           Inl e \<Rightarrow> if is_MlflowException e then Inl e else Inr None
         | Inr r \<Rightarrow> Inr r)"

section \<open>Creating a prompt version\<close>

text \<open>A template is a string or a list of chat messages (dicts of role and content).\<close>

datatype template = TextTemplate string | ChatTemplate "json list"

text \<open>Truth value of a response format (\<^verbatim>\<open>if response_format\<close>): the empty dict is false,
  as \<^verbatim>\<open>None\<close> is; a model class is true.\<close>

fun truthy_response_format :: "response_format \<Rightarrow> bool" where
  "truthy_response_format (ResponseDict d) = (d \<noteq> [])"
| "truthy_response_format (PydanticModel schema) = True"

text \<open>
  The list \<^verbatim>\<open>version_tags\<close> that \<^verbatim>\<open>create_prompt_version\<close> builds before it calls the store;
  converting the response format may raise.
\<close>

definition version_tags ::
  "module_env \<Rightarrow> template \<Rightarrow> py_dict option \<Rightarrow> response_format option
     \<Rightarrow> exn + (string \<times> string) list" where
  "version_tags M template tags response_format =
     (let marker = [(IS_PROMPT_TAG_KEY M, ''true'')];
          body =
            (case template of
               TextTemplate text \<Rightarrow>
                 [(PROMPT_TEXT_TAG_KEY M, text), (PROMPT_TYPE_TAG_KEY M, PROMPT_TYPE_TEXT)]
             | ChatTemplate messages \<Rightarrow>
                 [(PROMPT_TEXT_TAG_KEY M, json_dumps M (JArray messages)),
                  (PROMPT_TYPE_TAG_KEY M, PROMPT_TYPE_CHAT)]);
          user = (case tags of None \<Rightarrow> [] | Some d \<Rightarrow> d)
      in case response_format of
           None \<Rightarrow> Inr (marker @ body @ user)
         | Some rf \<Rightarrow>
             if truthy_response_format rf then
               (case convert_response_format_to_dict M rf of
                  Inl e \<Rightarrow> Inl e
                | Inr schema \<Rightarrow>
                    Inr (marker @ body @ [(RESPONSE_FORMAT_TAG_KEY M, json_dumps M schema)] @ user))
             else Inr (marker @ body @ user))"

definition create_prompt_version ::
  "module_env \<Rightarrow> 's registry_store \<Rightarrow> 's \<Rightarrow> string \<Rightarrow> template \<Rightarrow> string option
     \<Rightarrow> py_dict option \<Rightarrow> response_format option \<Rightarrow> (exn + prompt_version) \<times> 's" where
  "create_prompt_version M S s name template description tags response_format =
     (case version_tags M template tags response_format of
        Inl e \<Rightarrow> (Inl e, s)
      | Inr vtags \<Rightarrow>
          (case create_model_version S s name ''prompt-template'' vtags description of
             (Inl e, s') \<Rightarrow> (Inl e, s')
           | (Inr mv, s') \<Rightarrow>
               (case get_registered_model S s' name of
                  Inl e \<Rightarrow> (Inl e, s')
                | Inr rm \<Rightarrow>
                    (case tags_to_dict (rm_tags M rm) of
                       Inl e \<Rightarrow> (Inl e, s')
                     | Inr prompt_tags \<Rightarrow> (model_version_to_prompt_version M mv prompt_tags, s')))))"

section \<open>The link merge protocol\<close>

text \<open>
  The tracking side, which owns traces, logged models and runs, is a parameter as well:
  a record of functions over its state \<open>'t\<close>. A read returns the entity, \<^verbatim>\<open>None\<close> or the
  exception raised; only tags are read from an entity.
\<close>

record trace_info =
  ti_tags :: py_dict

record logged_model =
  lm_tags :: py_dict

record run =
  run_data_tags :: tags_attr

record 't tracking =
  get_trace_info :: "'t \<Rightarrow> string \<Rightarrow> exn + trace_info option"
  set_trace_tag :: "'t \<Rightarrow> string \<Rightarrow> string \<Rightarrow> string \<Rightarrow> (exn + unit) \<times> 't"
  get_logged_model :: "'t \<Rightarrow> string \<Rightarrow> exn + logged_model option"
  set_logged_model_tags :: "'t \<Rightarrow> string \<Rightarrow> (string \<times> string) list \<Rightarrow> (exn + unit) \<times> 't"
  get_run :: "'t \<Rightarrow> string \<Rightarrow> exn + run option"
  set_tag :: "'t \<Rightarrow> string \<Rightarrow> string \<times> string \<Rightarrow> (exn + unit) \<times> 't"

text \<open>
  Every caller of \<^verbatim>\<open>_update_linked_prompts_tag\<close> passes dicts of the two strings
  \<^verbatim>\<open>name\<close> and \<^verbatim>\<open>version\<close>; a link entry is such a dict.
\<close>

datatype link_entry = LinkEntry (entry_name: string) (entry_version: string)

definition entry_json :: "link_entry \<Rightarrow> json" where
  "entry_json e = JObject [(''name'', JString (entry_name e)), (''version'', JString (entry_version e))]"

text \<open>
  Python's \<^verbatim>\<open>entry == x\<close> for a link entry and a parsed value: \<open>x\<close> is a dict with exactly
  the keys \<^verbatim>\<open>name\<close> and \<^verbatim>\<open>version\<close>, bound to the entry's two strings. The order of
  the keys does not matter.
\<close>

fun py_eq_entry :: "link_entry \<Rightarrow> json \<Rightarrow> bool" where
  "py_eq_entry e (JObject kvs) =
     (set (map fst kvs) = {''name'', ''version''} \<and>
      map_of kvs ''name'' = Some (JString (entry_name e)) \<and>
      map_of kvs ''version'' = Some (JString (entry_version e)))"
| "py_eq_entry e x = False"

text \<open>\<^verbatim>\<open>entry in parsed\<close>.\<close>

definition entry_in :: "link_entry \<Rightarrow> json list \<Rightarrow> bool" where
  "entry_in e parsed = list_ex (py_eq_entry e) parsed"

text \<open>The loop of \<^verbatim>\<open>_update_linked_prompts_tag\<close>, which appends to the parsed list.\<close>

fun append_new_entries :: "json list \<Rightarrow> link_entry list \<Rightarrow> json list" where
  "append_new_entries parsed [] = parsed"
| "append_new_entries parsed (new_prompt_entry # rest) =
     (if \<not> entry_in new_prompt_entry parsed
      then append_new_entries (parsed @ [entry_json new_prompt_entry]) rest
      else append_new_entries parsed rest)"

definition quoted :: "string \<Rightarrow> string" where
  "quoted s = [CHR 0x27] @ s @ [CHR 0x27]"

definition update_linked_prompts_tag ::
  "module_env \<Rightarrow> string option \<Rightarrow> link_entry list \<Rightarrow> exn + string" where
  "update_linked_prompts_tag M current_tag_value new_prompt_entries =
     (case
        (case current_tag_value of
           Some cur \<Rightarrow>
             (case json_loads M cur of
                None \<Rightarrow>
                  Inl (MlflowException
                         (''Invalid JSON format for '' @ quoted (LINKED_PROMPTS_TAG_KEY M) @ '' tag: '' @ cur)
                         NoErrorCode)
              | Some (JArray xs) \<Rightarrow> Inr xs
              | Some other \<Rightarrow>
                  Inl (MlflowException
                         (''Invalid format for '' @ quoted (LINKED_PROMPTS_TAG_KEY M) @ '' tag: '' @ cur)
                         NoErrorCode))
         | None \<Rightarrow> Inr [])
      of
        Inl e \<Rightarrow> Inl e
      | Inr parsed_prompts_tag_value \<Rightarrow>
          Inr (json_dumps M (JArray (append_new_entries parsed_prompts_tag_value new_prompt_entries))))"

text \<open>The entry built from a prompt version: its name and \<^verbatim>\<open>str\<close> of its version.\<close>

definition prompt_entry :: "prompt_version \<Rightarrow> link_entry" where
  "prompt_entry prompt_version =
     LinkEntry (pv_name prompt_version) (py_str_int (pv_version prompt_version))"

text \<open>The \<^verbatim>\<open>AttributeError\<close> of \<^verbatim>\<open>prompt_version.name\<close> when \<^verbatim>\<open>prompt_version\<close> is \<^verbatim>\<open>None\<close>.\<close>

definition none_has_no_name :: exn where
  "none_has_no_name =
     AttributeError (quoted ''NoneType'' @ '' object has no attribute '' @ quoted ''name'')"

text \<open>
  The three link operations. The lock \<^verbatim>\<open>_prompt_link_lock\<close> brackets each body from the read
  of the target on; one thread of control is modelled, for which taking and releasing
  the reentrant lock changes nothing.
\<close>

definition link_prompts_to_trace ::
  "module_env \<Rightarrow> 't tracking \<Rightarrow> 't \<Rightarrow> prompt_version list \<Rightarrow> string \<Rightarrow> (exn + unit) \<times> 't" where
  "link_prompts_to_trace M T t prompt_versions trace_id =
     (case get_trace_info T t trace_id of
        Inl e \<Rightarrow> (Inl e, t)
      | Inr None \<Rightarrow>
          (Inl (MlflowException
                  (''Could not find trace with ID '' @ quoted trace_id @ '' to which to link prompts.'')
                  (ByName RESOURCE_DOES_NOT_EXIST)), t)
      | Inr (Some trace_info) \<Rightarrow>
          let new_prompt_entries = map prompt_entry prompt_versions;
              current_tag_value = map_of (ti_tags trace_info) (LINKED_PROMPTS_TAG_KEY M)
          in (case update_linked_prompts_tag M current_tag_value new_prompt_entries of
                Inl e \<Rightarrow> (Inl e, t)
              | Inr updated_tag_value \<Rightarrow>
                  if current_tag_value \<noteq> Some updated_tag_value
                  then set_trace_tag T t trace_id (LINKED_PROMPTS_TAG_KEY M) updated_tag_value
                  else (Inr (), t)))"

definition link_prompt_version_to_model ::
  "module_env \<Rightarrow> 's registry_store \<Rightarrow> 's \<Rightarrow> 't tracking \<Rightarrow> 't \<Rightarrow> string \<Rightarrow> string \<Rightarrow> string
     \<Rightarrow> (exn + unit) \<times> 't" where
  "link_prompt_version_to_model M S s T t name version model_id =
     (case get_prompt_version M S s name (VersionStr version) of
        Inl e \<Rightarrow> (Inl e, t)
      | Inr prompt_version \<Rightarrow>
          (case get_logged_model T t model_id of
             Inl e \<Rightarrow> (Inl e, t)
           | Inr None \<Rightarrow>
               (Inl (MlflowException
                       (''Could not find model with ID '' @ quoted model_id
                          @ '' to which to link prompt '' @ quoted name @ ''.'')
                       (ByName RESOURCE_DOES_NOT_EXIST)), t)
           | Inr (Some logged_model) \<Rightarrow>
               (case prompt_version of
                  None \<Rightarrow> (Inl none_has_no_name, t)
                | Some pv \<Rightarrow>
                    let new_prompt_entry = prompt_entry pv;
                        current_tag_value = map_of (lm_tags logged_model) (LINKED_PROMPTS_TAG_KEY M)
                    in (case update_linked_prompts_tag M current_tag_value [new_prompt_entry] of
                          Inl e \<Rightarrow> (Inl e, t)
                        | Inr updated_tag_value \<Rightarrow>
                            if current_tag_value \<noteq> Some updated_tag_value
                            then set_logged_model_tags T t model_id
                                   [(LINKED_PROMPTS_TAG_KEY M, updated_tag_value)]
                            else (Inr (), t)))))"

text \<open>
  The tags of a run are a dict, or a list of tags of which the first with the key counts;
  iterating \<^verbatim>\<open>None\<close> raises a \<^verbatim>\<open>TypeError\<close>.
\<close>

definition run_tag_value :: "tags_attr \<Rightarrow> string \<Rightarrow> exn + string option" where
  "run_tag_value tags key =
     (case tags of
        TagsDict d \<Rightarrow> Inr (map_of d key)
      | TagsList xs \<Rightarrow> Inr (map_of xs key)
      | TagsNone \<Rightarrow> Inl (TypeError ''NoneType object is not iterable''))"

definition link_prompt_version_to_run ::
  "module_env \<Rightarrow> 's registry_store \<Rightarrow> 's \<Rightarrow> 't tracking \<Rightarrow> 't \<Rightarrow> string \<Rightarrow> string \<Rightarrow> string
     \<Rightarrow> (exn + unit) \<times> 't" where
  "link_prompt_version_to_run M S s T t name version run_id =
     (case get_prompt_version M S s name (VersionStr version) of
        Inl e \<Rightarrow> (Inl e, t)
      | Inr prompt_version \<Rightarrow>
          (case get_run T t run_id of
             Inl e \<Rightarrow> (Inl e, t)
           | Inr None \<Rightarrow>
               (Inl (MlflowException
                       (''Could not find run with ID '' @ quoted run_id
                          @ '' to which to link prompt '' @ quoted name @ ''.'')
                       (ByName RESOURCE_DOES_NOT_EXIST)), t)
           | Inr (Some run) \<Rightarrow>
               (case prompt_version of
                  None \<Rightarrow> (Inl none_has_no_name, t)
                | Some pv \<Rightarrow>
                    let new_prompt_entry = prompt_entry pv in
                    (case run_tag_value (run_data_tags run) (LINKED_PROMPTS_TAG_KEY M) of
                       Inl e \<Rightarrow> (Inl e, t)
                     | Inr current_tag_value \<Rightarrow>
                         (case update_linked_prompts_tag M current_tag_value [new_prompt_entry] of
                            Inl e \<Rightarrow> (Inl e, t)
                          | Inr updated_tag_value \<Rightarrow>
                              if current_tag_value \<noteq> Some updated_tag_value
                              then set_tag T t run_id (LINKED_PROMPTS_TAG_KEY M, updated_tag_value)
                              else (Inr (), t))))))"

section \<open>The status poller\<close>









section \<open>A backend in memory\<close>

text \<open>
  An instance of the abstract methods, for the examples: registered models, model
  versions and aliases held in lists. A missing entity raises an \<^verbatim>\<open>MlflowException\<close>
  with the code \<^verbatim>\<open>RESOURCE_DOES_NOT_EXIST\<close>.
\<close>

record mem_store =
  ms_models :: "registered_model list"
  ms_versions :: "model_version list"
  ms_aliases :: "(string \<times> string \<times> int) list"

definition not_found :: "string \<Rightarrow> exn" where
  "not_found what = MlflowException (what @ '' not found'') (ByValue RESOURCE_DOES_NOT_EXIST)"

definition mem_get_registered_model :: "mem_store \<Rightarrow> string \<Rightarrow> exn + registered_model" where
  "mem_get_registered_model s name =
     (case find (\<lambda>rm. rm_name rm = name) (ms_models s) of
        None \<Rightarrow> Inl (not_found ''Registered Model'')
      | Some rm \<Rightarrow> Inr rm)"

definition mem_get_model_version :: "mem_store \<Rightarrow> string \<Rightarrow> int \<Rightarrow> exn + model_version" where
  "mem_get_model_version s name version =
     (case find (\<lambda>mv. mv_name mv = name \<and> mv_version mv = version) (ms_versions s) of
        None \<Rightarrow> Inl (not_found ''Model Version'')
      | Some mv \<Rightarrow> Inr mv)"

definition mem_get_model_version_by_alias :: "mem_store \<Rightarrow> string \<Rightarrow> string \<Rightarrow> exn + model_version" where
  "mem_get_model_version_by_alias s name alias =
     (case find (\<lambda>(n, a, v). n = name \<and> a = alias) (ms_aliases s) of
        None \<Rightarrow> Inl (not_found ''Registered model alias'')
      | Some (n, a, v) \<Rightarrow> mem_get_model_version s name v)"

definition mem_create_model_version ::
  "mem_store \<Rightarrow> string \<Rightarrow> string \<Rightarrow> (string \<times> string) list \<Rightarrow> string option
     \<Rightarrow> (exn + model_version) \<times> mem_store" where
  "mem_create_model_version s name source tags description =
     (if find (\<lambda>rm. rm_name rm = name) (ms_models s) = None
      then (Inl (not_found ''Registered Model''), s)
      else
        let mv = \<lparr>mv_name = name,
                  mv_version = 1 + fold max (map mv_version (filter (\<lambda>mv. mv_name mv = name) (ms_versions s))) 0,
                  mv_source = source, mv_status = ''READY'', mv_status_message = None,
                  mv_description = description, mv_tags = TagsDict (dict_of_tags tags)\<rparr>
        in (Inr mv, s\<lparr>ms_versions := ms_versions s @ [mv]\<rparr>))"

definition mem_update_version ::
  "mem_store \<Rightarrow> string \<Rightarrow> int \<Rightarrow> (model_version \<Rightarrow> model_version option) \<Rightarrow> (exn + unit) \<times> mem_store" where
  "mem_update_version s name version f =
     (if find (\<lambda>mv. mv_name mv = name \<and> mv_version mv = version) (ms_versions s) = None
      then (Inl (not_found ''Model Version''), s)
      else (Inr (),
            s\<lparr>ms_versions :=
                 List.map_filter
                   (\<lambda>mv. if mv_name mv = name \<and> mv_version mv = version then f mv else Some mv)
                   (ms_versions s)\<rparr>))"

definition mem_store_api :: "mem_store registry_store" where
  "mem_store_api =
     \<lparr>get_registered_model = mem_get_registered_model,
      get_model_version = mem_get_model_version,
      get_model_version_by_alias = mem_get_model_version_by_alias,
      create_model_version = mem_create_model_version,
      delete_model_version = (\<lambda>s name version. mem_update_version s name version (\<lambda>mv. None)),
      set_model_version_tag =
        (\<lambda>s name version (k, v).
           mem_update_version s name version
             (\<lambda>mv. Some (mv\<lparr>mv_tags := TagsDict (AList.update k v (tags_as_dict (mv_tags mv)))\<rparr>))),
      delete_model_version_tag =
        (\<lambda>s name version k.
           mem_update_version s name version
             (\<lambda>mv. Some (mv\<lparr>mv_tags := TagsDict (AList.delete k (tags_as_dict (mv_tags mv)))\<rparr>)))\<rparr>"

section \<open>A tracking side in memory\<close>

text \<open>
  An instance of the tracking functions, for the examples: the tags of each trace,
  logged model and run, by identifier. Setting a tag replaces the value of the key.
\<close>

record mem_tracking =
  mt_traces :: "(string \<times> py_dict) list"
  mt_models :: "(string \<times> py_dict) list"
  mt_runs :: "(string \<times> tags_attr) list"

definition set_in_tags :: "string \<times> string \<Rightarrow> tags_attr \<Rightarrow> tags_attr" where
  "set_in_tags kv tags =
     (case tags of
        TagsDict d \<Rightarrow> TagsDict (AList.update (fst kv) (snd kv) d)
      | TagsList xs \<Rightarrow> TagsList (AList.update (fst kv) (snd kv) xs)
      | TagsNone \<Rightarrow> TagsDict [kv])"

definition mem_tracking_api :: "mem_tracking tracking" where
  "mem_tracking_api =
     \<lparr>get_trace_info = (\<lambda>t trace_id. Inr (map_option (\<lambda>tags. \<lparr>ti_tags = tags\<rparr>) (map_of (mt_traces t) trace_id))),
      set_trace_tag =
        (\<lambda>t trace_id key val.
           (Inr (), t\<lparr>mt_traces := AList.map_entry trace_id (AList.update key val) (mt_traces t)\<rparr>)),
      get_logged_model = (\<lambda>t model_id. Inr (map_option (\<lambda>tags. \<lparr>lm_tags = tags\<rparr>) (map_of (mt_models t) model_id))),
      set_logged_model_tags =
        (\<lambda>t model_id tags.
           (Inr (), t\<lparr>mt_models :=
                        AList.map_entry model_id (fold (\<lambda>(k, v) d. AList.update k v d) tags) (mt_models t)\<rparr>)),
      get_run = (\<lambda>t run_id. Inr (map_option (\<lambda>tags. \<lparr>run_data_tags = tags\<rparr>) (map_of (mt_runs t) run_id))),
      set_tag =
        (\<lambda>t run_id kv. (Inr (), t\<lparr>mt_runs := AList.map_entry run_id (set_in_tags kv) (mt_runs t)\<rparr>))\<rparr>"

section \<open>Example data\<close>

text \<open>
  An instance of the module's imports and a small registry: the prompt \<^verbatim>\<open>greeting\<close> with
  two versions and two aliases, and the model \<^verbatim>\<open>classifier\<close> that is no prompt.
\<close>

definition demo_to_prompt_version :: "model_version \<Rightarrow> py_dict \<Rightarrow> exn + prompt_version" where
  "demo_to_prompt_version mv prompt_tags =
     (case map_of (tags_as_dict (mv_tags mv)) ''mlflow.prompt.text'' of
        None \<Rightarrow> Inl (MlflowException ''Prompt does not contain a prompt text'' (ByValue INVALID_PARAMETER_VALUE))
      | Some body \<Rightarrow>
          Inr \<lparr>pv_name = mv_name mv, pv_version = mv_version mv, pv_template = body,
               pv_tags = tags_as_dict (mv_tags mv), pv_prompt_tags = prompt_tags\<rparr>)"

definition demo_env :: module_env where
  "demo_env =
     \<lparr>IS_PROMPT_TAG_KEY = ''mlflow.prompt.is_prompt'',
      LINKED_PROMPTS_TAG_KEY = ''mlflow.linkedPrompts'',
      PROMPT_TEXT_TAG_KEY = ''mlflow.prompt.text'',
      PROMPT_TYPE_TAG_KEY = ''_mlflow_prompt_type'',
      RESPONSE_FORMAT_TAG_KEY = ''mlflow.prompt.response_format'',
      json_loads = py_json_loads,
      json_dumps = py_json_dumps,
      model_version_to_prompt_version = demo_to_prompt_version,
      convert_response_format_to_dict =
        (\<lambda>rf. case rf of PydanticModel schema \<Rightarrow> Inr schema | ResponseDict d \<Rightarrow> Inr (JObject d))\<rparr>"

definition greeting_rm :: registered_model where
  "greeting_rm =
     \<lparr>rm_name = ''greeting'', rm_description = Some ''Greets a user'',
      rm_creation_timestamp = Some 1700000000000,
      rm_internal_tags = TagsDict [(''mlflow.prompt.is_prompt'', ''true''), (''team'', ''nlp'')]\<rparr>"

definition classifier_rm :: registered_model where
  "classifier_rm =
     \<lparr>rm_name = ''classifier'', rm_description = None,
      rm_creation_timestamp = Some 1700000000001,
      rm_internal_tags = TagsDict [(''team'', ''vision'')]\<rparr>"

definition greeting_v1 :: model_version where
  "greeting_v1 =
     \<lparr>mv_name = ''greeting'', mv_version = 1, mv_source = ''prompt-template'',
      mv_status = ''READY'', mv_status_message = None, mv_description = None,
      mv_tags = TagsDict [(''mlflow.prompt.is_prompt'', ''true''),
                          (''mlflow.prompt.text'', ''Hello {{name}}''),
                          (''_mlflow_prompt_type'', ''text'')]\<rparr>"

definition greeting_v2 :: model_version where
  "greeting_v2 =
     \<lparr>mv_name = ''greeting'', mv_version = 2, mv_source = ''prompt-template'',
      mv_status = ''READY'', mv_status_message = None, mv_description = None,
      mv_tags = TagsDict [(''mlflow.prompt.is_prompt'', ''true''),
                          (''mlflow.prompt.text'', ''Good morning {{name}}''),
                          (''_mlflow_prompt_type'', ''text'')]\<rparr>"

text \<open>A version registered under the prompt's name without the marker tag.\<close>

definition greeting_v3 :: model_version where
  "greeting_v3 =
     \<lparr>mv_name = ''greeting'', mv_version = 3, mv_source = ''runs:/def/model'',
      mv_status = ''READY'', mv_status_message = None, mv_description = None,
      mv_tags = TagsDict [(''stage'', ''draft'')]\<rparr>"

definition classifier_v1 :: model_version where
  "classifier_v1 =
     \<lparr>mv_name = ''classifier'', mv_version = 1, mv_source = ''runs:/abc/model'',
      mv_status = ''READY'', mv_status_message = None, mv_description = None,
      mv_tags = TagsDict []\<rparr>"

definition demo_store :: mem_store where
  "demo_store =
     \<lparr>ms_models = [greeting_rm, classifier_rm],
      ms_versions = [greeting_v1, greeting_v2, greeting_v3, classifier_v1],
      ms_aliases = [(''greeting'', ''production'', 1), (''greeting'', ''1'', 2)]\<rparr>"

text \<open>The same backend behind a connection that fails on every alias lookup.\<close>

definition flaky_store_api :: "mem_store registry_store" where
  "flaky_store_api =
     mem_store_api\<lparr>get_model_version_by_alias :=
       (\<lambda>s name alias. Inl (OtherException ''connection reset''))\<rparr>"

text \<open>
  Traces, logged models and runs with their tags: \<^verbatim>\<open>trace-42\<close> has no linked prompts yet,
  \<^verbatim>\<open>trace-7\<close>, \<^verbatim>\<open>m-1\<close> and \<^verbatim>\<open>run-1\<close> are linked to version 1 of \<^verbatim>\<open>greeting\<close>, and the
  others hold a tag that is no JSON array.
\<close>

definition greeting_1_linked :: string where
  "greeting_1_linked = py_json_dumps (JArray [entry_json (LinkEntry ''greeting'' ''1'')])"

definition demo_tracking :: mem_tracking where
  "demo_tracking =
     \<lparr>mt_traces =
        [(''trace-42'', []),
         (''trace-7'', [(''mlflow.linkedPrompts'', greeting_1_linked)]),
         (''trace-bad'', [(''mlflow.linkedPrompts'', ''not json'')]),
         (''trace-obj'', [(''mlflow.linkedPrompts'', ''{}'')])],
      mt_models =
        [(''m-1'', [(''mlflow.linkedPrompts'', greeting_1_linked)]),
         (''m-bad'', [(''mlflow.linkedPrompts'', ''{}'')])],
      mt_runs =
        [(''run-1'', TagsList [(''mlflow.user'', ''ann''), (''mlflow.linkedPrompts'', greeting_1_linked)]),
         (''run-bad'', TagsDict [(''mlflow.linkedPrompts'', ''not json'')])]\<rparr>"

definition greeting_pv1 :: prompt_version where
  "greeting_pv1 =
     \<lparr>pv_name = ''greeting'', pv_version = 1, pv_template = ''Hello {{name}}'',
      pv_tags = [(''mlflow.prompt.is_prompt'', ''true''),
                 (''mlflow.prompt.text'', ''Hello {{name}}''),
                 (''_mlflow_prompt_type'', ''text'')],
      pv_prompt_tags = [(''team'', ''nlp'')]\<rparr>"

text \<open>The tracking side after version 1 of \<^verbatim>\<open>greeting\<close> was linked to \<^verbatim>\<open>trace-42\<close>.\<close>

definition demo_tracking_linked :: mem_tracking where
  "demo_tracking_linked =
     demo_tracking\<lparr>mt_traces :=
        [(''trace-42'', [(''mlflow.linkedPrompts'', greeting_1_linked)]),
         (''trace-7'', [(''mlflow.linkedPrompts'', greeting_1_linked)]),
         (''trace-bad'', [(''mlflow.linkedPrompts'', ''not json'')]),
         (''trace-obj'', [(''mlflow.linkedPrompts'', ''{}'')])]\<rparr>"





section \<open>Evaluating the examples\<close>

lemmas demo_defs = demo_store_def greeting_rm_def classifier_rm_def greeting_v1_def greeting_v2_def
  greeting_v3_def flaky_store_api_def
  classifier_v1_def demo_env_def mem_store_api_def mem_get_registered_model_def
  mem_get_model_version_def mem_get_model_version_by_alias_def mem_update_version_def
  demo_to_prompt_version_def

lemmas py_int_defs = py_int_str_def py_strip_def is_py_space_def parse_nat_def is_digit_def
  digit_val_def

section \<open>Decimal numerals\<close>











section \<open>Integer-parse-or-fail\<close>



section \<open>The projection of \<^verbatim>\<open>get_prompt\<close>\<close>

lemma delete_fold_update:
  "AList.delete k (fold (\<lambda>(k, v) d. AList.update k v d) xs acc)
     = fold (\<lambda>(k, v) d. AList.update k v d) (AList.delete k xs) (AList.delete k acc)"
proof (induction xs arbitrary: acc)
  case Nil
  show ?case by simp
next
  case (Cons x xs)
  obtain k' v' where x: "x = (k', v')" by (cases x)
  show ?case
  proof (cases "k' = k")
    case True
    then show ?thesis using Cons [of "AList.update k v' acc"] x
      by (simp add: AList.delete_update_same)
  next
    case False
    then show ?thesis using Cons [of "AList.update k' v' acc"] x
      by (simp add: AList.delete_update)
  qed
qed

lemma dict_of_tags_delete:
  "dict_of_tags (AList.delete k xs) = AList.delete k (dict_of_tags xs)"
  by (simp add: dict_of_tags_def delete_fold_update)

lemma tags_as_dict_rm_tags:
  "tags_as_dict (rm_tags M rm)
     = AList.delete (IS_PROMPT_TAG_KEY M) (tags_as_dict (rm_internal_tags rm))"
proof (cases "rm_internal_tags rm")
  case (TagsDict d)
  then show ?thesis by (simp add: tags_as_dict_def rm_tags_def)
next
  case (TagsList xs)
  have e: "dict_of_tags [] = []" by (simp add: dict_of_tags_def)
  have "tags_as_dict (TagsList ys) = dict_of_tags ys" for ys
    by (simp add: tags_as_dict_def e)
  with TagsList show ?thesis by (simp add: rm_tags_def dict_of_tags_delete)
next
  case TagsNone
  then show ?thesis by (simp add: tags_as_dict_def rm_tags_def)
qed

text \<open>
  Claim C2. For a registered model \<open>rm\<close> that the store returns for \<open>name\<close>: when its tag
  map holds the reserved marker with the value \<^verbatim>\<open>"true"\<close>, \<^verbatim>\<open>get_prompt\<close> returns the prompt
  with the entity's name, description and creation time and with the tag map minus the
  marker; when the marker is absent or has another value, \<^verbatim>\<open>get_prompt\<close> returns \<^verbatim>\<open>None\<close>
  and raises nothing.
\<close>

theorem get_prompt_projection:
  assumes "get_registered_model S s name = Inr rm"
  shows "(map_of (tags_as_dict (rm_internal_tags rm)) (IS_PROMPT_TAG_KEY M) = Some ''true'' \<longrightarrow>
            get_prompt M S s name
              = Some \<lparr>p_name = rm_name rm, p_description = rm_description rm,
                      p_creation_timestamp = rm_creation_timestamp rm,
                      p_tags = AList.delete (IS_PROMPT_TAG_KEY M) (tags_as_dict (rm_internal_tags rm))\<rparr>) \<and>
         (map_of (tags_as_dict (rm_internal_tags rm)) (IS_PROMPT_TAG_KEY M) \<noteq> Some ''true'' \<longrightarrow>
            get_prompt M S s name = None)"
  using assms by (simp add: get_prompt_def tags_as_dict_rm_tags Let_def)

text \<open>In the example registry \<^verbatim>\<open>greeting\<close> is a prompt and \<^verbatim>\<open>classifier\<close> is not.\<close>

theorem get_prompt_projection_witness:
  "get_registered_model mem_store_api demo_store ''greeting'' = Inr greeting_rm \<and>
   get_prompt demo_env mem_store_api demo_store ''greeting''
     = Some \<lparr>p_name = ''greeting'', p_description = Some ''Greets a user'',
             p_creation_timestamp = Some 1700000000000, p_tags = [(''team'', ''nlp'')]\<rparr> \<and>
   get_registered_model mem_store_api demo_store ''classifier'' = Inr classifier_rm \<and>
   get_prompt demo_env mem_store_api demo_store ''classifier'' = None"
proof -
  have g: "get_registered_model mem_store_api demo_store ''greeting'' = Inr greeting_rm"
    by (simp add: demo_defs)
  have c: "get_registered_model mem_store_api demo_store ''classifier'' = Inr classifier_rm"
    by (simp add: demo_defs)
  show ?thesis
    using get_prompt_projection [OF g, of demo_env] get_prompt_projection [OF c, of demo_env] g c
    by (simp add: tags_as_dict_def greeting_rm_def classifier_rm_def demo_env_def)
qed

text \<open>An exception of the store, whatever it is, is reported as \<^verbatim>\<open>None\<close> as well.\<close>

lemma get_prompt_never_raises:
  "get_registered_model S s name = Inl e \<Longrightarrow> get_prompt M S s name = None"
  by (simp add: get_prompt_def)

section \<open>The three outcomes of \<^verbatim>\<open>get_prompt_version\<close>\<close>

lemmas gpv_defs = get_prompt_version_def resolve_version_def has_prompt_tag_def tags_to_dict_def
  rm_tags_def tags_as_dict_def not_a_prompt_def



section \<open>Lookup by alias\<close>

text \<open>
  \<^verbatim>\<open>get_prompt_version_by_alias\<close> hands the alias to \<^verbatim>\<open>get_prompt_version\<close>. For an alias that
  \<^verbatim>\<open>int\<close> does not read as a number this is the lookup by alias.
\<close>

lemma get_prompt_version_by_alias_non_numeric:
  "py_int_str alias = None \<Longrightarrow>
     get_prompt_version_by_alias M S s name alias = prompt_version_by_alias_spec M S s name alias"
proof -
  assume "py_int_str alias = None"
  then have r: "resolve_version S s name (VersionStr alias) = get_model_version_by_alias S s name alias"
    by (simp add: resolve_version_def)
  show ?thesis
    unfolding get_prompt_version_by_alias_def get_prompt_version_def
      prompt_version_by_alias_spec_def r Let_def ..
qed

text \<open>
  Claim C9. The alias argument is not always treated as an alias: an alias that reads
  as an integer is looked up as a version number. In the example registry the alias
  \<^verbatim>\<open>"1"\<close> of \<^verbatim>\<open>greeting\<close> points to version 2; the lookup by alias gives version 2, and
  \<^verbatim>\<open>get_prompt_version_by_alias\<close> returns version 1.
\<close>

theorem numeric_alias_read_as_version_number:
  "py_int_str ''1'' = Some 1 \<and>
   get_model_version_by_alias mem_store_api demo_store ''greeting'' ''1'' = Inr greeting_v2 \<and>
   prompt_version_by_alias_spec demo_env mem_store_api demo_store ''greeting'' ''1''
     = Inr (Some \<lparr>pv_name = ''greeting'', pv_version = 2, pv_template = ''Good morning {{name}}'',
                  pv_tags = [(''mlflow.prompt.is_prompt'', ''true''),
                             (''mlflow.prompt.text'', ''Good morning {{name}}''),
                             (''_mlflow_prompt_type'', ''text'')],
                  pv_prompt_tags = [(''team'', ''nlp'')]\<rparr>) \<and>
   get_prompt_version_by_alias demo_env mem_store_api demo_store ''greeting'' ''1''
     = Inr (Some \<lparr>pv_name = ''greeting'', pv_version = 1, pv_template = ''Hello {{name}}'',
                  pv_tags = [(''mlflow.prompt.is_prompt'', ''true''),
                             (''mlflow.prompt.text'', ''Hello {{name}}''),
                             (''_mlflow_prompt_type'', ''text'')],
                  pv_prompt_tags = [(''team'', ''nlp'')]\<rparr>)"
  by (simp add: get_prompt_version_by_alias_def prompt_version_by_alias_spec_def gpv_defs
      py_int_defs demo_defs)

section \<open>The tags of a created prompt version\<close>

text \<open>
  Claim C8, as amended. The tags handed to the store are the marker with the value
  \<^verbatim>\<open>"true"\<close>; then the template tag and the kind tag, holding the text and \<^verbatim>\<open>"text"\<close> for a
  string template and the JSON text of the messages and \<^verbatim>\<open>"chat"\<close> for a chat template;
  then, when a response format is given and is not the empty dict, the JSON text of its
  schema under the response format key; then the caller's tags. The store is called
  with the source \<^verbatim>\<open>"prompt-template"\<close> and these tags, and the result is the view of the
  version the store returns.
\<close>

theorem create_prompt_version_construction:
  "version_tags M template tags response_format
     = (let marker = [(IS_PROMPT_TAG_KEY M, ''true'')];
            body = (case template of
                      TextTemplate text \<Rightarrow>
                        [(PROMPT_TEXT_TAG_KEY M, text), (PROMPT_TYPE_TAG_KEY M, ''text'')]
                    | ChatTemplate messages \<Rightarrow>
                        [(PROMPT_TEXT_TAG_KEY M, json_dumps M (JArray messages)),
                         (PROMPT_TYPE_TAG_KEY M, ''chat'')]);
            user = (case tags of None \<Rightarrow> [] | Some d \<Rightarrow> d)
        in case response_format of
             None \<Rightarrow> Inr (marker @ body @ user)
           | Some (ResponseDict []) \<Rightarrow> Inr (marker @ body @ user)
           | Some rf \<Rightarrow>
               (case convert_response_format_to_dict M rf of
                  Inl e \<Rightarrow> Inl e
                | Inr schema \<Rightarrow>
                    Inr (marker @ body @ [(RESPONSE_FORMAT_TAG_KEY M, json_dumps M schema)] @ user))) \<and>
   (\<forall>e. version_tags M template tags response_format = Inl e \<longrightarrow>
      create_prompt_version M S s name template description tags response_format = (Inl e, s)) \<and>
   (\<forall>vtags. version_tags M template tags response_format = Inr vtags \<longrightarrow>
      create_prompt_version M S s name template description tags response_format
        = (case create_model_version S s name ''prompt-template'' vtags description of
             (Inl e, s') \<Rightarrow> (Inl e, s')
           | (Inr mv, s') \<Rightarrow>
               (case get_registered_model S s' name of
                  Inl e \<Rightarrow> (Inl e, s')
                | Inr rm \<Rightarrow>
                    (case tags_to_dict (rm_tags M rm) of
                       Inl e \<Rightarrow> (Inl e, s')
                     | Inr prompt_tags \<Rightarrow> (model_version_to_prompt_version M mv prompt_tags, s')))))"
proof -
  have a: "version_tags M template tags response_format
     = (let marker = [(IS_PROMPT_TAG_KEY M, ''true'')];
            body = (case template of
                      TextTemplate text \<Rightarrow>
                        [(PROMPT_TEXT_TAG_KEY M, text), (PROMPT_TYPE_TAG_KEY M, ''text'')]
                    | ChatTemplate messages \<Rightarrow>
                        [(PROMPT_TEXT_TAG_KEY M, json_dumps M (JArray messages)),
                         (PROMPT_TYPE_TAG_KEY M, ''chat'')]);
            user = (case tags of None \<Rightarrow> [] | Some d \<Rightarrow> d)
        in case response_format of
             None \<Rightarrow> Inr (marker @ body @ user)
           | Some (ResponseDict []) \<Rightarrow> Inr (marker @ body @ user)
           | Some rf \<Rightarrow>
               (case convert_response_format_to_dict M rf of
                  Inl e \<Rightarrow> Inl e
                | Inr schema \<Rightarrow>
                    Inr (marker @ body @ [(RESPONSE_FORMAT_TAG_KEY M, json_dumps M schema)] @ user)))"
    by (cases template; cases tags; cases response_format)
      (simp_all add: version_tags_def PROMPT_TYPE_TEXT_def PROMPT_TYPE_CHAT_def Let_def
        split: response_format.splits list.splits)
  show ?thesis
    by (intro conjI allI impI, rule a) (simp_all add: create_prompt_version_def)
qed

text \<open>Creating a version of \<^verbatim>\<open>greeting\<close> in the example registry.\<close>

theorem create_prompt_version_construction_witness:
  "version_tags demo_env (TextTemplate ''Hi {{name}}'') (Some [(''author'', ''me'')])
       (Some (ResponseDict [(''type'', JString ''object'')]))
     = Inr [(''mlflow.prompt.is_prompt'', ''true''),
            (''mlflow.prompt.text'', ''Hi {{name}}''),
            (''_mlflow_prompt_type'', ''text''),
            (''mlflow.prompt.response_format'', py_json_dumps (JObject [(''type'', JString ''object'')])),
            (''author'', ''me'')] \<and>
   create_prompt_version demo_env mem_store_api demo_store ''greeting'' (TextTemplate ''Hi {{name}}'')
       (Some ''friendlier'') (Some [(''author'', ''me'')])
       (Some (ResponseDict [(''type'', JString ''object'')]))
     = (Inr \<lparr>pv_name = ''greeting'', pv_version = 4, pv_template = ''Hi {{name}}'',
              pv_tags = [(''mlflow.prompt.is_prompt'', ''true''),
                         (''mlflow.prompt.text'', ''Hi {{name}}''),
                         (''_mlflow_prompt_type'', ''text''),
                         (''mlflow.prompt.response_format'',
                          py_json_dumps (JObject [(''type'', JString ''object'')])),
                         (''author'', ''me'')],
              pv_prompt_tags = [(''team'', ''nlp'')]\<rparr>,
        demo_store\<lparr>ms_versions := ms_versions demo_store @
          [\<lparr>mv_name = ''greeting'', mv_version = 4, mv_source = ''prompt-template'',
            mv_status = ''READY'', mv_status_message = None, mv_description = Some ''friendlier'',
            mv_tags = TagsDict
              [(''mlflow.prompt.is_prompt'', ''true''),
               (''mlflow.prompt.text'', ''Hi {{name}}''),
               (''_mlflow_prompt_type'', ''text''),
               (''mlflow.prompt.response_format'',
                py_json_dumps (JObject [(''type'', JString ''object'')])),
               (''author'', ''me'')]\<rparr>]\<rparr>)"
proof -
  let ?vt = "[(''mlflow.prompt.is_prompt'', ''true''),
            (''mlflow.prompt.text'', ''Hi {{name}}''),
            (''_mlflow_prompt_type'', ''text''),
            (''mlflow.prompt.response_format'', py_json_dumps (JObject [(''type'', JString ''object'')])),
            (''author'', ''me'')]"
  note k = create_prompt_version_construction [of demo_env "TextTemplate ''Hi {{name}}''"
      "Some [(''author'', ''me'')]" "Some (ResponseDict [(''type'', JString ''object'')])"
      mem_store_api demo_store "''greeting''" "Some ''friendlier''"]
  have vt: "version_tags demo_env (TextTemplate ''Hi {{name}}'') (Some [(''author'', ''me'')])
       (Some (ResponseDict [(''type'', JString ''object'')])) = Inr ?vt"
    using k by (simp add: demo_env_def)
  have c: "create_model_version mem_store_api demo_store ''greeting'' ''prompt-template'' ?vt (Some ''friendlier'')
    = (Inr \<lparr>mv_name = ''greeting'', mv_version = 4, mv_source = ''prompt-template'',
            mv_status = ''READY'', mv_status_message = None, mv_description = Some ''friendlier'',
            mv_tags = TagsDict ?vt\<rparr>,
       demo_store\<lparr>ms_versions := ms_versions demo_store @
          [\<lparr>mv_name = ''greeting'', mv_version = 4, mv_source = ''prompt-template'',
            mv_status = ''READY'', mv_status_message = None, mv_description = Some ''friendlier'',
            mv_tags = TagsDict ?vt\<rparr>]\<rparr>)"
    by (simp add: demo_defs mem_create_model_version_def dict_of_tags_def Let_def)
  show ?thesis
    using k vt c
    by (simp add: demo_defs rm_tags_def tags_to_dict_def tags_as_dict_def)
qed

text \<open>
  The claim as stated fails for the empty dict: it is a response format that was given,
  and no response format tag is built.
\<close>

theorem empty_response_format_adds_no_tag:
  "version_tags demo_env (TextTemplate ''Hello {{name}}'') None (Some (ResponseDict []))
     = Inr [(''mlflow.prompt.is_prompt'', ''true''),
            (''mlflow.prompt.text'', ''Hello {{name}}''),
            (''_mlflow_prompt_type'', ''text'')] \<and>
   RESPONSE_FORMAT_TAG_KEY demo_env
     \<notin> set (map fst [(''mlflow.prompt.is_prompt'', ''true''),
                       (''mlflow.prompt.text'', ''Hello {{name}}''),
                       (''_mlflow_prompt_type'', ''text'')])"
  by (simp add: version_tags_def demo_env_def PROMPT_TYPE_TEXT_def)

section \<open>The merge of link entries\<close>

text \<open>
  The loop appends a sublist of the new entries: those that are not in the parsed list,
  each once, in the order of their first occurrence.
\<close>

lemma py_eq_entry_json [simp]: "py_eq_entry e (entry_json e') \<longleftrightarrow> e = e'"
  by (cases e; cases e') (auto simp: entry_json_def)

lemma entry_in_append [simp]: "entry_in e (xs @ ys) \<longleftrightarrow> entry_in e xs \<or> entry_in e ys"
  by (auto simp: entry_in_def list_ex_iff)

lemma entry_in_map_json [simp]: "entry_in e (map entry_json zs) \<longleftrightarrow> e \<in> set zs"
  by (auto simp: entry_in_def list_ex_iff)

lemma entry_in_Nil [simp]: "\<not> entry_in e []"
  by (simp add: entry_in_def)

lemma append_new_entries_added:
  "\<exists>zs. append_new_entries xs new = xs @ map entry_json zs \<and> subseq zs new \<and> distinct zs \<and>
        set zs = {e \<in> set new. \<not> entry_in e xs}"
proof (induction new arbitrary: xs)
  case Nil
  show ?case by simp
next
  case (Cons e es)
  show ?case
  proof (cases "entry_in e xs")
    case True
    from Cons [of xs] obtain zs where
      "append_new_entries xs es = xs @ map entry_json zs" "subseq zs es" "distinct zs"
      "set zs = {e \<in> set es. \<not> entry_in e xs}" by blast
    with True show ?thesis by (intro exI [of _ zs]) auto
  next
    case False
    from Cons [of "xs @ [entry_json e]"] obtain zs where zs:
      "append_new_entries (xs @ [entry_json e]) es = (xs @ [entry_json e]) @ map entry_json zs"
      "subseq zs es" "distinct zs"
      "set zs = {x \<in> set es. \<not> entry_in x (xs @ [entry_json e])}" by blast
    have "e \<notin> set zs" using zs(4) by (auto simp: entry_in_def)
    moreover have "set (e # zs) = {x \<in> set (e # es). \<not> entry_in x xs}"
      using zs(4) False by (auto simp: entry_in_def)
    ultimately show ?thesis using False zs(1-3)
      by (intro exI [of _ "e # zs"]) simp
  qed
qed

lemma append_new_entries_present:
  "\<forall>e \<in> set new. entry_in e xs \<Longrightarrow> append_new_entries xs new = xs"
  by (induction new) simp_all

lemma count_entries_append:
  assumes "distinct zs" and "\<forall>z \<in> set zs. \<not> entry_in z xs"
    and "length (filter (py_eq_entry e) xs) \<le> 1"
  shows "length (filter (py_eq_entry e) (xs @ map entry_json zs)) \<le> 1"
proof -
  have f: "filter (py_eq_entry e) (map entry_json zs) = map entry_json (filter (\<lambda>z. z = e) zs)"
    by (induction zs) auto
  have d: "length (filter (\<lambda>z. z = e) zs) \<le> 1" using assms(1)
    by (induction zs) (auto simp: filter_empty_conv)
  show ?thesis
  proof (cases "e \<in> set zs")
    case True
    with assms(2) have "\<not> entry_in e xs" by blast
    then have "filter (py_eq_entry e) xs = []"
      by (auto simp: entry_in_def list_ex_iff filter_empty_conv)
    with d f show ?thesis by simp
  next
    case False
    then have "filter (\<lambda>z. z = e) zs = []" by (auto simp: filter_empty_conv)
    with f assms(3) show ?thesis by simp
  qed
qed

text \<open>
  Claim C3. When the current tag value parses as a JSON array \<open>xs\<close>, the new tag value is
  the JSON text of \<open>xs\<close> followed by the entries \<open>zs\<close> that were appended: \<open>xs\<close> stays in
  front in its order; \<open>zs\<close> is a subsequence of the new entries, without repetition, and
  holds exactly the new entries that are not structurally present in \<open>xs\<close>; every new entry
  is present in the merged array; if no entry occurred twice in \<open>xs\<close>, none occurs twice in
  the merged array; and an appended entry is the dict of two strings, the version being
  \<^verbatim>\<open>str\<close> of the prompt version's number.
\<close>

theorem link_merge_invariant:
  assumes "json_loads M cur = Some (JArray xs)"
  shows "\<exists>zs. update_linked_prompts_tag M (Some cur) new
               = Inr (json_dumps M (JArray (xs @ map entry_json zs))) \<and>
             subseq zs new \<and> distinct zs \<and>
             set zs = {e \<in> set new. \<not> entry_in e xs} \<and>
             (\<forall>e \<in> set new. entry_in e (xs @ map entry_json zs)) \<and>
             ((\<forall>e. length (filter (py_eq_entry e) xs) \<le> 1) \<longrightarrow>
              (\<forall>e. length (filter (py_eq_entry e) (xs @ map entry_json zs)) \<le> 1)) \<and>
             (\<forall>z \<in> set zs. entry_json z
                = JObject [(''name'', JString (entry_name z)), (''version'', JString (entry_version z))]) \<and>
             (\<forall>pv. prompt_entry pv = LinkEntry (pv_name pv) (py_str_int (pv_version pv)))"
proof -
  from append_new_entries_added [of xs new] obtain zs where zs:
    "append_new_entries xs new = xs @ map entry_json zs" "subseq zs new" "distinct zs"
    "set zs = {e \<in> set new. \<not> entry_in e xs}" by blast
  have u: "update_linked_prompts_tag M (Some cur) new
      = Inr (json_dumps M (JArray (xs @ map entry_json zs)))"
    using assms zs(1) by (simp add: update_linked_prompts_tag_def)
  have p: "\<forall>e \<in> set new. entry_in e (xs @ map entry_json zs)" using zs(4) by auto
  have n: "\<forall>e. length (filter (py_eq_entry e) (xs @ map entry_json zs)) \<le> 1"
    if "\<forall>e. length (filter (py_eq_entry e) xs) \<le> 1"
    using that zs(3,4) by (intro allI count_entries_append) auto
  show ?thesis
    using u zs(2-4) p n by (intro exI [of _ zs]) (simp add: entry_json_def prompt_entry_def)
qed

text \<open>
  A tag that links version 1 of \<^verbatim>\<open>greeting\<close>, merged with version 1 and twice version 2:
  version 2 is appended once.
\<close>

lemma distinct_singleton_set: "distinct zs \<Longrightarrow> set zs = {a} \<Longrightarrow> zs = [a]"
  by (cases zs) (auto simp: subset_singleton_iff)

theorem link_merge_invariant_witness:
  "json_loads demo_env greeting_1_linked = Some (JArray [entry_json (LinkEntry ''greeting'' ''1'')]) \<and>
   update_linked_prompts_tag demo_env (Some greeting_1_linked)
       [LinkEntry ''greeting'' ''1'', LinkEntry ''greeting'' ''2'', LinkEntry ''greeting'' ''2'']
     = Inr (py_json_dumps (JArray [entry_json (LinkEntry ''greeting'' ''1''),
                                   entry_json (LinkEntry ''greeting'' ''2'')]))"
proof -
  let ?new = "[LinkEntry ''greeting'' ''1'', LinkEntry ''greeting'' ''2'', LinkEntry ''greeting'' ''2'']"
  have "py_json_loads greeting_1_linked = Some (JArray [entry_json (LinkEntry ''greeting'' ''1'')])"
    by code_simp
  then have h: "json_loads demo_env greeting_1_linked
      = Some (JArray [entry_json (LinkEntry ''greeting'' ''1'')])"
    by (simp add: demo_env_def)
  from link_merge_invariant [OF h, of ?new] obtain zs where zs:
    "update_linked_prompts_tag demo_env (Some greeting_1_linked) ?new
       = Inr (json_dumps demo_env (JArray ([entry_json (LinkEntry ''greeting'' ''1'')] @ map entry_json zs)))"
    "distinct zs"
    "set zs = {e \<in> set ?new. \<not> entry_in e [entry_json (LinkEntry ''greeting'' ''1'')]}"
    by blast
  have "set zs = {LinkEntry ''greeting'' ''2''}" unfolding zs(3) by (auto simp: entry_in_def)
  with zs(2) have "zs = [LinkEntry ''greeting'' ''2'']" by (rule distinct_singleton_set)
  with zs(1) h show ?thesis by (simp add: demo_env_def)
qed

text \<open>Without a tag on the target the new tag holds each new entry once, in input order.\<close>

lemma first_link_writes_each_entry_once:
  "\<exists>zs. update_linked_prompts_tag M None new = Inr (json_dumps M (JArray (map entry_json zs))) \<and>
        subseq zs new \<and> distinct zs \<and> set zs = set new"
proof -
  from append_new_entries_added [of "[]" new] obtain zs where
    "append_new_entries [] new = [] @ map entry_json zs" "subseq zs new" "distinct zs"
    "set zs = {e \<in> set new. \<not> entry_in e []}" by blast
  then show ?thesis
    by (intro exI [of _ zs]) (simp add: update_linked_prompts_tag_def)
qed

section \<open>The three link operations\<close>

text \<open>Facts about the example data.\<close>

lemmas tracking_defs = demo_tracking_def demo_tracking_linked_def mem_tracking_api_def
  greeting_pv1_def

lemma greeting_1_linked_loads:
  "json_loads demo_env greeting_1_linked = Some (JArray [entry_json (LinkEntry ''greeting'' ''1'')])"
proof -
  have "py_json_loads greeting_1_linked = Some (JArray [entry_json (LinkEntry ''greeting'' ''1'')])"
    by code_simp
  then show ?thesis by (simp add: demo_env_def)
qed

lemma greeting_1_linked_dumps:
  "json_dumps demo_env (JArray [entry_json (LinkEntry ''greeting'' ''1'')]) = greeting_1_linked"
  by (simp add: demo_env_def greeting_1_linked_def)

lemma prompt_entry_greeting_pv1: "prompt_entry greeting_pv1 = LinkEntry ''greeting'' ''1''"
  by (simp add: prompt_entry_def greeting_pv1_def py_str_int_def nat_to_str.simps digit_char_def)

lemma demo_key: "LINKED_PROMPTS_TAG_KEY demo_env = ''mlflow.linkedPrompts''"
  by (simp add: demo_env_def)

lemma get_greeting_1:
  "get_prompt_version demo_env mem_store_api demo_store ''greeting'' (VersionStr ''1'')
     = Inr (Some greeting_pv1)"
  by (simp add: gpv_defs py_int_defs demo_defs greeting_pv1_def)

lemma get_greeting_3:
  "get_prompt_version demo_env mem_store_api demo_store ''greeting'' (VersionStr ''3'') = Inr None"
  by (simp add: gpv_defs py_int_defs demo_defs)

subsection \<open>Linking entries that are present\<close>

lemma update_present:
  assumes "json_loads M cur = Some (JArray xs)" and "\<forall>e \<in> set new. entry_in e xs"
  shows "update_linked_prompts_tag M (Some cur) new = Inr (json_dumps M (JArray xs))"
  using assms by (simp add: update_linked_prompts_tag_def append_new_entries_present)

text \<open>
  Claim C1. Let the linked-prompts tag of the target hold \<open>cur\<close>, which parses as the array
  \<open>xs\<close>, and let every entry being linked be present in \<open>xs\<close> (as it is on a second call
  with the same entries). Then the merge yields the array \<open>xs\<close> unchanged: each of
  \<^verbatim>\<open>link_prompts_to_trace\<close>, \<^verbatim>\<open>link_prompt_version_to_model\<close> and \<^verbatim>\<open>link_prompt_version_to_run\<close>
  succeeds and leaves the tracking state as it is when the JSON text of \<open>xs\<close> equals
  \<open>cur\<close>, and otherwise writes the JSON text of the same array \<open>xs\<close>.
\<close>

theorem linking_present_entries_is_idempotent:
  assumes "json_loads M cur = Some (JArray xs)"
  shows
    "(\<forall>ti. get_trace_info T t trace_id = Inr (Some ti) \<and>
           map_of (ti_tags ti) (LINKED_PROMPTS_TAG_KEY M) = Some cur \<and>
           (\<forall>pv \<in> set pvs. entry_in (prompt_entry pv) xs) \<longrightarrow>
        update_linked_prompts_tag M (Some cur) (map prompt_entry pvs) = Inr (json_dumps M (JArray xs)) \<and>
        link_prompts_to_trace M T t pvs trace_id
          = (if json_dumps M (JArray xs) = cur then (Inr (), t)
             else set_trace_tag T t trace_id (LINKED_PROMPTS_TAG_KEY M) (json_dumps M (JArray xs)))) \<and>
     (\<forall>pv lm. get_prompt_version M S s name (VersionStr version) = Inr (Some pv) \<and>
           get_logged_model T t model_id = Inr (Some lm) \<and>
           map_of (lm_tags lm) (LINKED_PROMPTS_TAG_KEY M) = Some cur \<and>
           entry_in (prompt_entry pv) xs \<longrightarrow>
        link_prompt_version_to_model M S s T t name version model_id
          = (if json_dumps M (JArray xs) = cur then (Inr (), t)
             else set_logged_model_tags T t model_id
                    [(LINKED_PROMPTS_TAG_KEY M, json_dumps M (JArray xs))])) \<and>
     (\<forall>pv r. get_prompt_version M S s name (VersionStr version) = Inr (Some pv) \<and>
           get_run T t run_id = Inr (Some r) \<and>
           run_tag_value (run_data_tags r) (LINKED_PROMPTS_TAG_KEY M) = Inr (Some cur) \<and>
           entry_in (prompt_entry pv) xs \<longrightarrow>
        link_prompt_version_to_run M S s T t name version run_id
          = (if json_dumps M (JArray xs) = cur then (Inr (), t)
             else set_tag T t run_id (LINKED_PROMPTS_TAG_KEY M, json_dumps M (JArray xs))))"
proof (intro conjI allI impI)
  fix ti
  assume a: "get_trace_info T t trace_id = Inr (Some ti) \<and>
           map_of (ti_tags ti) (LINKED_PROMPTS_TAG_KEY M) = Some cur \<and>
           (\<forall>pv \<in> set pvs. entry_in (prompt_entry pv) xs)"
  then show u: "update_linked_prompts_tag M (Some cur) (map prompt_entry pvs)
      = Inr (json_dumps M (JArray xs))"
    using assms by (intro update_present) auto
  show "link_prompts_to_trace M T t pvs trace_id
          = (if json_dumps M (JArray xs) = cur then (Inr (), t)
             else set_trace_tag T t trace_id (LINKED_PROMPTS_TAG_KEY M) (json_dumps M (JArray xs)))"
    using a u by (auto simp: link_prompts_to_trace_def Let_def)
next
  fix pv lm
  assume a: "get_prompt_version M S s name (VersionStr version) = Inr (Some pv) \<and>
           get_logged_model T t model_id = Inr (Some lm) \<and>
           map_of (lm_tags lm) (LINKED_PROMPTS_TAG_KEY M) = Some cur \<and>
           entry_in (prompt_entry pv) xs"
  have u: "update_linked_prompts_tag M (Some cur) [prompt_entry pv] = Inr (json_dumps M (JArray xs))"
    using a assms by (intro update_present) auto
  show "link_prompt_version_to_model M S s T t name version model_id
          = (if json_dumps M (JArray xs) = cur then (Inr (), t)
             else set_logged_model_tags T t model_id
                    [(LINKED_PROMPTS_TAG_KEY M, json_dumps M (JArray xs))])"
    using a u by (auto simp: link_prompt_version_to_model_def Let_def)
next
  fix pv r
  assume a: "get_prompt_version M S s name (VersionStr version) = Inr (Some pv) \<and>
           get_run T t run_id = Inr (Some r) \<and>
           run_tag_value (run_data_tags r) (LINKED_PROMPTS_TAG_KEY M) = Inr (Some cur) \<and>
           entry_in (prompt_entry pv) xs"
  have u: "update_linked_prompts_tag M (Some cur) [prompt_entry pv] = Inr (json_dumps M (JArray xs))"
    using a assms by (intro update_present) auto
  show "link_prompt_version_to_run M S s T t name version run_id
          = (if json_dumps M (JArray xs) = cur then (Inr (), t)
             else set_tag T t run_id (LINKED_PROMPTS_TAG_KEY M, json_dumps M (JArray xs)))"
    using a u by (auto simp: link_prompt_version_to_run_def Let_def)
qed

text \<open>
  Linking version 1 of \<^verbatim>\<open>greeting\<close> to \<^verbatim>\<open>trace-42\<close> writes the tag; the same call again
  changes nothing; the model \<^verbatim>\<open>m-1\<close> and the run \<^verbatim>\<open>run-1\<close> are linked already.
\<close>

theorem linking_present_entries_is_idempotent_witness:
  "link_prompts_to_trace demo_env mem_tracking_api demo_tracking [greeting_pv1] ''trace-42''
     = (Inr (), demo_tracking_linked) \<and>
   link_prompts_to_trace demo_env mem_tracking_api demo_tracking_linked [greeting_pv1] ''trace-42''
     = (Inr (), demo_tracking_linked) \<and>
   link_prompt_version_to_model demo_env mem_store_api demo_store mem_tracking_api demo_tracking
       ''greeting'' ''1'' ''m-1''
     = (Inr (), demo_tracking) \<and>
   link_prompt_version_to_run demo_env mem_store_api demo_store mem_tracking_api demo_tracking
       ''greeting'' ''1'' ''run-1''
     = (Inr (), demo_tracking)"
proof -
  have first: "link_prompts_to_trace demo_env mem_tracking_api demo_tracking [greeting_pv1] ''trace-42''
     = (Inr (), demo_tracking_linked)"
    by (simp add: link_prompts_to_trace_def update_linked_prompts_tag_def tracking_defs demo_key
        prompt_entry_greeting_pv1 [unfolded greeting_pv1_def] greeting_1_linked_dumps entry_in_def)
  have e: "entry_in (prompt_entry greeting_pv1) [entry_json (LinkEntry ''greeting'' ''1'')]"
    by (simp add: prompt_entry_greeting_pv1 entry_in_def)
  have tr: "get_trace_info mem_tracking_api demo_tracking_linked ''trace-42''
      = Inr (Some \<lparr>ti_tags = [(''mlflow.linkedPrompts'', greeting_1_linked)]\<rparr>)"
    by (simp add: tracking_defs)
  have lm: "get_logged_model mem_tracking_api demo_tracking ''m-1''
      = Inr (Some \<lparr>lm_tags = [(''mlflow.linkedPrompts'', greeting_1_linked)]\<rparr>)"
    by (simp add: tracking_defs)
  have rn: "get_run mem_tracking_api demo_tracking ''run-1''
      = Inr (Some \<lparr>run_data_tags =
           TagsList [(''mlflow.user'', ''ann''), (''mlflow.linkedPrompts'', greeting_1_linked)]\<rparr>)"
    by (simp add: tracking_defs)
  have rt: "run_tag_value
       (TagsList [(''mlflow.user'', ''ann''), (''mlflow.linkedPrompts'', greeting_1_linked)])
       ''mlflow.linkedPrompts'' = Inr (Some greeting_1_linked)"
    by (simp add: run_tag_value_def)
  note k1 = linking_present_entries_is_idempotent [OF greeting_1_linked_loads,
      of mem_tracking_api demo_tracking_linked "''trace-42''" "[greeting_pv1]"
        mem_store_api demo_store "''greeting''" "''1''" "''m-1''" "''run-1''"]
  note k2 = linking_present_entries_is_idempotent [OF greeting_1_linked_loads,
      of mem_tracking_api demo_tracking "''trace-7''" "[greeting_pv1]"
        mem_store_api demo_store "''greeting''" "''1''" "''m-1''" "''run-1''"]
  have second: "link_prompts_to_trace demo_env mem_tracking_api demo_tracking_linked [greeting_pv1] ''trace-42''
     = (Inr (), demo_tracking_linked)"
    using k1 tr e by (simp add: demo_key greeting_1_linked_dumps)
  have model: "link_prompt_version_to_model demo_env mem_store_api demo_store mem_tracking_api demo_tracking
       ''greeting'' ''1'' ''m-1'' = (Inr (), demo_tracking)"
    using k2 get_greeting_1 lm e by (simp add: demo_key greeting_1_linked_dumps)
  have run: "link_prompt_version_to_run demo_env mem_store_api demo_store mem_tracking_api demo_tracking
       ''greeting'' ''1'' ''run-1'' = (Inr (), demo_tracking)"
    using k2 get_greeting_1 rn rt e by (simp add: demo_key greeting_1_linked_dumps)
  show ?thesis using first second model run by simp
qed

subsection \<open>A tag that is no JSON array\<close>

lemma update_malformed:
  assumes "\<forall>xs. json_loads M cur \<noteq> Some (JArray xs)"
  shows "update_linked_prompts_tag M (Some cur) new
     = Inl (MlflowException
              ((if json_loads M cur = None then ''Invalid JSON format for '' else ''Invalid format for '')
                 @ quoted (LINKED_PROMPTS_TAG_KEY M) @ '' tag: '' @ cur)
              NoErrorCode)"
  using assms by (auto simp: update_linked_prompts_tag_def split: option.splits json.splits)

text \<open>
  Claim C6. When the linked-prompts tag of the target is present and is not valid JSON,
  or parses to something other than an array, each of the three link operations fails
  and returns the tracking state it was given: nothing is written. For a trace the
  exception is the one \<^verbatim>\<open>_update_linked_prompts_tag\<close> raises.
\<close>

theorem malformed_tag_fails_without_write:
  assumes "\<forall>xs. json_loads M cur \<noteq> Some (JArray xs)"
  shows
    "(\<forall>ti. get_trace_info T t trace_id = Inr (Some ti) \<and>
           map_of (ti_tags ti) (LINKED_PROMPTS_TAG_KEY M) = Some cur \<longrightarrow>
        link_prompts_to_trace M T t pvs trace_id
          = (Inl (MlflowException
                    ((if json_loads M cur = None then ''Invalid JSON format for ''
                      else ''Invalid format for '')
                       @ quoted (LINKED_PROMPTS_TAG_KEY M) @ '' tag: '' @ cur)
                    NoErrorCode), t)) \<and>
     (\<forall>lm. get_logged_model T t model_id = Inr (Some lm) \<and>
           map_of (lm_tags lm) (LINKED_PROMPTS_TAG_KEY M) = Some cur \<longrightarrow>
        (\<exists>e. link_prompt_version_to_model M S s T t name version model_id = (Inl e, t))) \<and>
     (\<forall>r. get_run T t run_id = Inr (Some r) \<and>
           run_tag_value (run_data_tags r) (LINKED_PROMPTS_TAG_KEY M) = Inr (Some cur) \<longrightarrow>
        (\<exists>e. link_prompt_version_to_run M S s T t name version run_id = (Inl e, t)))"
  using update_malformed [OF assms]
  by (auto simp: link_prompts_to_trace_def link_prompt_version_to_model_def
      link_prompt_version_to_run_def Let_def split: sum.splits option.splits)

text \<open>The tags \<^verbatim>\<open>not json\<close> and \<^verbatim>\<open>{}\<close> of the example data.\<close>

theorem malformed_tag_fails_without_write_witness:
  "link_prompts_to_trace demo_env mem_tracking_api demo_tracking [greeting_pv1] ''trace-bad''
     = (Inl (MlflowException
               (''Invalid JSON format for '' @ quoted ''mlflow.linkedPrompts'' @ '' tag: not json'')
               NoErrorCode), demo_tracking) \<and>
   link_prompts_to_trace demo_env mem_tracking_api demo_tracking [greeting_pv1] ''trace-obj''
     = (Inl (MlflowException
               (''Invalid format for '' @ quoted ''mlflow.linkedPrompts'' @ '' tag: {}'')
               NoErrorCode), demo_tracking) \<and>
   (\<exists>e. link_prompt_version_to_model demo_env mem_store_api demo_store mem_tracking_api demo_tracking
          ''greeting'' ''1'' ''m-bad'' = (Inl e, demo_tracking)) \<and>
   (\<exists>e. link_prompt_version_to_run demo_env mem_store_api demo_store mem_tracking_api demo_tracking
          ''greeting'' ''1'' ''run-bad'' = (Inl e, demo_tracking))"
proof -
  have "py_json_loads ''not json'' = None" by code_simp
  then have a: "\<forall>xs. json_loads demo_env ''not json'' \<noteq> Some (JArray xs)"
    and a': "json_loads demo_env ''not json'' = None"
    by (simp_all add: demo_env_def)
  have "py_json_loads ''{}'' = Some (JObject [])" by code_simp
  then have b: "\<forall>xs. json_loads demo_env ''{}'' \<noteq> Some (JArray xs)"
    and b': "json_loads demo_env ''{}'' \<noteq> None"
    by (simp_all add: demo_env_def)
  have tr: "get_trace_info mem_tracking_api demo_tracking ''trace-bad''
      = Inr (Some \<lparr>ti_tags = [(''mlflow.linkedPrompts'', ''not json'')]\<rparr>)"
    "get_trace_info mem_tracking_api demo_tracking ''trace-obj''
      = Inr (Some \<lparr>ti_tags = [(''mlflow.linkedPrompts'', ''{}'')]\<rparr>)"
    by (simp_all add: tracking_defs)
  have lm: "get_logged_model mem_tracking_api demo_tracking ''m-bad''
      = Inr (Some \<lparr>lm_tags = [(''mlflow.linkedPrompts'', ''{}'')]\<rparr>)"
    by (simp add: tracking_defs)
  have rn: "get_run mem_tracking_api demo_tracking ''run-bad''
      = Inr (Some \<lparr>run_data_tags = TagsDict [(''mlflow.linkedPrompts'', ''not json'')]\<rparr>)"
    by (simp add: tracking_defs)
  have rt: "run_tag_value (TagsDict [(''mlflow.linkedPrompts'', ''not json'')]) ''mlflow.linkedPrompts''
      = Inr (Some ''not json'')"
    by (simp add: run_tag_value_def)
  note k1 = malformed_tag_fails_without_write [OF a,
      of mem_tracking_api demo_tracking "''trace-bad''" "[greeting_pv1]"
        "''m-bad''" mem_store_api demo_store "''greeting''" "''1''" "''run-bad''"]
  note k2 = malformed_tag_fails_without_write [OF b,
      of mem_tracking_api demo_tracking "''trace-obj''" "[greeting_pv1]"
        "''m-bad''" mem_store_api demo_store "''greeting''" "''1''" "''run-bad''"]
  have r1: "link_prompts_to_trace demo_env mem_tracking_api demo_tracking [greeting_pv1] ''trace-bad''
     = (Inl (MlflowException
               (''Invalid JSON format for '' @ quoted ''mlflow.linkedPrompts'' @ '' tag: not json'')
               NoErrorCode), demo_tracking)"
    using k1 tr(1) a' by (simp add: demo_key)
  have r2: "link_prompts_to_trace demo_env mem_tracking_api demo_tracking [greeting_pv1] ''trace-obj''
     = (Inl (MlflowException
               (''Invalid format for '' @ quoted ''mlflow.linkedPrompts'' @ '' tag: {}'')
               NoErrorCode), demo_tracking)"
    using k2 tr(2) b' by (simp add: demo_key)
  have r3: "\<exists>e. link_prompt_version_to_model demo_env mem_store_api demo_store mem_tracking_api demo_tracking
          ''greeting'' ''1'' ''m-bad'' = (Inl e, demo_tracking)"
    using k2 lm by (simp add: demo_key)
  have r4: "\<exists>e. link_prompt_version_to_run demo_env mem_store_api demo_store mem_tracking_api demo_tracking
          ''greeting'' ''1'' ''run-bad'' = (Inl e, demo_tracking)"
    using k1 rn rt by (simp add: demo_key)
  show ?thesis using r1 r2 r3 r4 by simp
qed

subsection \<open>Linking a prompt version that does not resolve\<close>

text \<open>
  Claim C10. \<^verbatim>\<open>link_prompt_version_to_model\<close> and \<^verbatim>\<open>link_prompt_version_to_run\<close> resolve the
  prompt version first. When \<^verbatim>\<open>get_prompt_version\<close> returns \<^verbatim>\<open>None\<close> the operation fails and
  the tracking state is unchanged: with the exception of the read, with the error that
  the target does not exist, or, when the target exists, with the \<^verbatim>\<open>AttributeError\<close> of
  building the link entry from \<^verbatim>\<open>None\<close>. When a prompt version is returned and the target
  exists, the operation is the merge and the conditional write, and that branch is not
  taken.
\<close>

theorem link_requires_prompt_version:
  "(get_prompt_version M S s name (VersionStr version) = Inr None \<longrightarrow>
      link_prompt_version_to_model M S s T t name version model_id
        = (Inl (case get_logged_model T t model_id of
                  Inl e \<Rightarrow> e
                | Inr None \<Rightarrow>
                    MlflowException
                      (''Could not find model with ID '' @ quoted model_id
                         @ '' to which to link prompt '' @ quoted name @ ''.'')
                      (ByName RESOURCE_DOES_NOT_EXIST)
                | Inr (Some lm) \<Rightarrow> none_has_no_name), t) \<and>
      link_prompt_version_to_run M S s T t name version run_id
        = (Inl (case get_run T t run_id of
                  Inl e \<Rightarrow> e
                | Inr None \<Rightarrow>
                    MlflowException
                      (''Could not find run with ID '' @ quoted run_id
                         @ '' to which to link prompt '' @ quoted name @ ''.'')
                      (ByName RESOURCE_DOES_NOT_EXIST)
                | Inr (Some r) \<Rightarrow> none_has_no_name), t)) \<and>
   (\<forall>pv. get_prompt_version M S s name (VersionStr version) = Inr (Some pv) \<longrightarrow>
      (\<forall>lm. get_logged_model T t model_id = Inr (Some lm) \<longrightarrow>
         link_prompt_version_to_model M S s T t name version model_id
           = (case update_linked_prompts_tag M (map_of (lm_tags lm) (LINKED_PROMPTS_TAG_KEY M))
                     [prompt_entry pv] of
                Inl e \<Rightarrow> (Inl e, t)
              | Inr updated \<Rightarrow>
                  if map_of (lm_tags lm) (LINKED_PROMPTS_TAG_KEY M) \<noteq> Some updated
                  then set_logged_model_tags T t model_id [(LINKED_PROMPTS_TAG_KEY M, updated)]
                  else (Inr (), t))) \<and>
      (\<forall>r cur. get_run T t run_id = Inr (Some r) \<and>
              run_tag_value (run_data_tags r) (LINKED_PROMPTS_TAG_KEY M) = Inr cur \<longrightarrow>
         link_prompt_version_to_run M S s T t name version run_id
           = (case update_linked_prompts_tag M cur [prompt_entry pv] of
                Inl e \<Rightarrow> (Inl e, t)
              | Inr updated \<Rightarrow>
                  if cur \<noteq> Some updated
                  then set_tag T t run_id (LINKED_PROMPTS_TAG_KEY M, updated)
                  else (Inr (), t))))"
  by (auto simp: link_prompt_version_to_model_def link_prompt_version_to_run_def Let_def
      split: sum.splits option.splits)

text \<open>
  Version 3 of \<^verbatim>\<open>greeting\<close> has no marker tag and resolves to \<^verbatim>\<open>None\<close>; version 1 resolves
  and is linked to \<^verbatim>\<open>m-1\<close> already.
\<close>

theorem link_requires_prompt_version_witness:
  "get_prompt_version demo_env mem_store_api demo_store ''greeting'' (VersionStr ''3'') = Inr None \<and>
   link_prompt_version_to_model demo_env mem_store_api demo_store mem_tracking_api demo_tracking
       ''greeting'' ''3'' ''m-1''
     = (Inl none_has_no_name, demo_tracking) \<and>
   link_prompt_version_to_run demo_env mem_store_api demo_store mem_tracking_api demo_tracking
       ''greeting'' ''3'' ''run-1''
     = (Inl none_has_no_name, demo_tracking) \<and>
   link_prompt_version_to_model demo_env mem_store_api demo_store mem_tracking_api demo_tracking
       ''greeting'' ''3'' ''m-9''
     = (Inl (MlflowException
               (''Could not find model with ID '' @ quoted ''m-9''
                  @ '' to which to link prompt '' @ quoted ''greeting'' @ ''.'')
               (ByName RESOURCE_DOES_NOT_EXIST)), demo_tracking) \<and>
   link_prompt_version_to_model demo_env mem_store_api demo_store mem_tracking_api demo_tracking
       ''greeting'' ''1'' ''m-1''
     = (Inr (), demo_tracking)"
proof -
  have lm: "get_logged_model mem_tracking_api demo_tracking ''m-1''
      = Inr (Some \<lparr>lm_tags = [(''mlflow.linkedPrompts'', greeting_1_linked)]\<rparr>)"
    "get_logged_model mem_tracking_api demo_tracking ''m-9'' = Inr None"
    by (simp_all add: tracking_defs)
  have rn: "get_run mem_tracking_api demo_tracking ''run-1''
      = Inr (Some \<lparr>run_data_tags =
           TagsList [(''mlflow.user'', ''ann''), (''mlflow.linkedPrompts'', greeting_1_linked)]\<rparr>)"
    by (simp add: tracking_defs)
  have u: "update_linked_prompts_tag demo_env (Some greeting_1_linked) [prompt_entry greeting_pv1]
      = Inr greeting_1_linked"
    by (simp add: update_linked_prompts_tag_def greeting_1_linked_loads prompt_entry_greeting_pv1
        entry_in_def greeting_1_linked_dumps)
  note k1 = link_requires_prompt_version [of demo_env mem_store_api demo_store "''greeting''" "''3''"
      mem_tracking_api demo_tracking "''m-1''" "''run-1''"]
  note k2 = link_requires_prompt_version [of demo_env mem_store_api demo_store "''greeting''" "''3''"
      mem_tracking_api demo_tracking "''m-9''" "''run-1''"]
  note k3 = link_requires_prompt_version [of demo_env mem_store_api demo_store "''greeting''" "''1''"
      mem_tracking_api demo_tracking "''m-1''" "''run-1''"]
  have r1: "link_prompt_version_to_model demo_env mem_store_api demo_store mem_tracking_api demo_tracking
       ''greeting'' ''3'' ''m-1'' = (Inl none_has_no_name, demo_tracking)"
    using k1 get_greeting_3 lm(1) by simp
  have r2: "link_prompt_version_to_run demo_env mem_store_api demo_store mem_tracking_api demo_tracking
       ''greeting'' ''3'' ''run-1'' = (Inl none_has_no_name, demo_tracking)"
    using k1 get_greeting_3 rn by simp
  have r3: "link_prompt_version_to_model demo_env mem_store_api demo_store mem_tracking_api demo_tracking
       ''greeting'' ''3'' ''m-9''
     = (Inl (MlflowException
               (''Could not find model with ID '' @ quoted ''m-9''
                  @ '' to which to link prompt '' @ quoted ''greeting'' @ ''.'')
               (ByName RESOURCE_DOES_NOT_EXIST)), demo_tracking)"
    using k2 get_greeting_3 lm(2) by simp
  have r4: "link_prompt_version_to_model demo_env mem_store_api demo_store mem_tracking_api demo_tracking
       ''greeting'' ''1'' ''m-1'' = (Inr (), demo_tracking)"
    using k3 get_greeting_1 lm(1) u by (simp add: demo_key)
  show ?thesis using get_greeting_3 r1 r2 r3 r4 by simp
qed

section \<open>The status poller\<close>








end
